theory Spec2Isabelle
  imports Complex_Main
begin

section \<open>Values, messages and responses (src/types.ts)\<close>

text \<open>
  JavaScript values as far as the orchestrator and the adapters inspect them. Tool
  results, tool arguments and message contents are typed \<open>any\<close> in the source; the code
  distinguishes \<open>null\<close>, \<open>undefined\<close>, strings (\<open>typeof x === 'string'\<close>) and
  everything else, and tests truthiness. Numbers inside such values are integers here.
\<close>

datatype jsval =
    JUndefined
  | JNull
  | JBool bool
  | JNum int
  | JStr string
  | JArr "jsval list"
  | JObj "(string \<times> jsval) list"

text \<open>JavaScript truthiness, as used by \<open>response.content || null\<close>.\<close>

fun truthy :: "jsval \<Rightarrow> bool" where
  "truthy JUndefined = False"
| "truthy JNull = False"
| "truthy (JBool b) = b"
| "truthy (JNum n) = (n \<noteq> 0)"
| "truthy (JStr s) = (s \<noteq> [])"
| "truthy (JArr xs) = True"
| "truthy (JObj kvs) = True"

text \<open>
  A thrown value. For a value with properties, \<open>is_Error\<close> is \<open>e instanceof Error\<close>,
  \<open>exn_message\<close> is \<open>e.message\<close> (empty when the value has none, which is falsy like
  the empty string) and \<open>exn_String\<close> is \<open>String(e)\<close>. A promise can also reject with
  \<open>undefined\<close> or \<open>null\<close>: these have no properties, and reading \<open>e.message\<close> of
  them throws (see \<open>nullish\<close>); \<open>exn_message\<close> is only a placeholder for them.
  Thrown values are those whose \<open>message\<close>, if they have one, is a string, and for which
  \<open>String(e)\<close> returns.
\<close>

datatype exn =
    Exn (is_Error: bool) (exn_message: string) (exn_String: string)
  | Thrown_undefined
  | Thrown_null
where
  "is_Error Thrown_undefined = False"
| "is_Error Thrown_null = False"
| "exn_message Thrown_undefined = []"
| "exn_message Thrown_null = []"
| "exn_String Thrown_undefined = ''undefined''"
| "exn_String Thrown_null = ''null''"

fun nullish :: "exn \<Rightarrow> bool" where
  "nullish (Exn i m s) = False"
| "nullish Thrown_undefined = True"
| "nullish Thrown_null = True"

text \<open>
  A JavaScript number, as far as a comparison with the loop counter sees it: a double is
  a rational, an infinity or NaN.
\<close>

datatype js_number = Finite rat | Infinity | Neg_Infinity | NaN

datatype role = System | User | Assistant | Tool

record usage_t =
  input_tokens :: int
  output_tokens :: int
  total_tokens :: int
  reasoning_tokens :: "int option"

record meta_t =
  model :: string
  latency_ms :: int
  extras :: "(string \<times> jsval) list"

text \<open>One element of \<open>tool_calls\<close>: \<open>{name, arguments, id}\<close>; name and id may be undefined.\<close>

record tool_call =
  call_name :: "string option"
  call_arguments :: jsval
  call_id :: "string option"

text \<open>
  \<open>tool_calls?: any[]\<close>: the outer option is the absent field, an element \<open>None\<close> is an
  undefined element (a hole of a sparse array, which \<open>for ... of\<close> yields as undefined).
\<close>

type_synonym tool_calls_t = "tool_call option list option"

record agent_message =
  msg_role :: role
  msg_content :: jsval
  msg_name :: "string option"
  msg_tool_calls :: tool_calls_t
  msg_tool_call_id :: "string option"
  msg_usage :: "usage_t option"
  msg_meta :: "meta_t option"

record agent_response =
  content :: jsval
  tool_calls :: tool_calls_t
  message :: "string option"
  usage :: usage_t
  meta :: meta_t

text \<open>The argument of \<open>Agent.run\<close>: \<open>string | AgentMessage[]\<close>.\<close>

datatype input_context = Text string | History "agent_message list"

section \<open>Observable actions of a run\<close>

text \<open>
  Events emitted through the EventEmitter: the calls of \<open>this.emit\<close>, whether or not a
  listener is registered. A listener that is called is taken to return. The one call of
  \<open>emit\<close> that can throw by itself is that of \<open>'error'\<close> without a listener (see
  \<open>error_listener\<close> and \<open>finish_run\<close>).
\<close>

datatype agent_event =
    Start int input_context
  | Token string
  | Tool_start string jsval
  | Tool_end string jsval
  | Response agent_response
  | Error_event string string exn

text \<open>
  Everything a run does to its collaborators, in order: emitted events, calls of the
  provider's \<open>generate\<close> (with the history passed and the outcome), calls of a tool's
  \<open>execute\<close> (with the call and the outcome), calls of the persistence hook
  \<open>saveFunction\<close> (with the message and the failure, if any) and \<open>console.error\<close>.
\<close>

datatype action =
    Emit agent_event
  | Generate "agent_message list" "exn + agent_response"
  | Execute tool_call "exn + jsval"
  | Save agent_message "exn option"
  | Console_error string exn

section \<open>Configuration and collaborators\<close>

text \<open>
  Collaborators are side-effecting: each takes the state of the outside world \<open>'w\<close> and
  returns the new one. A rejected promise or a throw is \<open>Inl\<close> (for the hook, \<open>Some\<close>).
  The field \<open>parameters\<close> of a tool is used by the adapters only and is left out.
\<close>

record 'w agent_tool =
  t_name :: string
  description :: string
  execute :: "jsval \<Rightarrow> 'w \<Rightarrow> (exn + jsval) \<times> 'w"

text \<open>
  \<open>provider\<close> is \<open>this.provider.generate\<close> applied to the run's constant arguments
  (system, files, tools, config, output_schema); what varies between calls are the history
  and the world. It returns the tokens passed to \<open>onToken\<close>, in order, and the outcome.
\<close>

record 'w agent_config =
  name :: string
  provider :: "agent_message list \<Rightarrow> 'w \<Rightarrow> (string list \<times> (exn + agent_response)) \<times> 'w"
  prompt :: "string option"
  tools :: "'w agent_tool list option"
  saveFunction :: "(agent_message \<Rightarrow> 'w \<Rightarrow> exn option \<times> 'w) option"
  max_tool_iterations :: "js_number option"

text \<open>
  What a run finds around it: the built-ins \<open>JSON.stringify\<close> and \<open>Date.now\<close>, and
  whether a listener for \<open>'error'\<close> is registered on the agent. \<open>EventEmitter.emit\<close>
  of any other event returns whether or not there are listeners; \<open>emit('error', payload)\<close>
  without a listener throws (\<open>ERR_UNHANDLED_ERROR\<close>, as the payload is not an \<open>Error\<close>).
\<close>

record 'w runtime =
  JSON_stringify :: "jsval \<Rightarrow> jsval"
  now :: "'w \<Rightarrow> int"
  error_listener :: bool

record 'w run_state =
  messages :: "agent_message list"
  trace :: "action list"
  world :: 'w

section \<open>Agent.run (src/agent.ts)\<close>

definition emit :: "agent_event \<Rightarrow> 'w run_state \<Rightarrow> 'w run_state" where
  "emit ev st = st\<lparr>trace := trace st @ [Emit ev]\<rparr>"

definition push :: "agent_message \<Rightarrow> 'w run_state \<Rightarrow> 'w run_state" where
  "push m st = st\<lparr>messages := messages st @ [m]\<rparr>"

definition console_error :: "string \<Rightarrow> exn \<Rightarrow> 'w run_state \<Rightarrow> 'w run_state" where
  "console_error s e st = st\<lparr>trace := trace st @ [Console_error s e]\<rparr>"

text \<open>\<open>await this.config.saveFunction(m)\<close>: the hook runs and its outcome is returned.\<close>

definition call_save ::
  "(agent_message \<Rightarrow> 'w \<Rightarrow> exn option \<times> 'w) \<Rightarrow> agent_message \<Rightarrow> 'w run_state
     \<Rightarrow> exn option \<times> 'w run_state" where
  "call_save save m st =
     (case save m (world st) of
        (r, w') \<Rightarrow> (r, st\<lparr>trace := trace st @ [Save m r], world := w'\<rparr>))"

text \<open>The hook inside \<open>try { ... } catch (err) { console.error(label, err) }\<close> (lines 31-36, 146-155).\<close>

definition save_swallowed ::
  "string \<Rightarrow> (agent_message \<Rightarrow> 'w \<Rightarrow> exn option \<times> 'w) \<Rightarrow> agent_message \<Rightarrow> 'w run_state
     \<Rightarrow> 'w run_state" where
  "save_swallowed label save m st =
     (case call_save save m st of
        (None, st') \<Rightarrow> st'
      | (Some err, st') \<Rightarrow> console_error label err st')"

definition plain_message :: "role \<Rightarrow> jsval \<Rightarrow> agent_message" where
  "plain_message r c =
     \<lparr>msg_role = r, msg_content = c, msg_name = None, msg_tool_calls = None,
      msg_tool_call_id = None, msg_usage = None, msg_meta = None\<rparr>"

text \<open>Lines 19-27: the initial history.\<close>

definition init_messages :: "'w agent_config \<Rightarrow> input_context \<Rightarrow> agent_message list" where
  "init_messages cfg inputContext =
     (case inputContext of
        History ms \<Rightarrow> ms
      | Text c \<Rightarrow>
          [plain_message User (JStr
             (case prompt cfg of
                None \<Rightarrow> c
              | Some p \<Rightarrow> if p \<noteq> [] then p @ [CHR 0x0A, CHR 0x0A] @ c else c))])"

text \<open>Lines 29-37: the initial user message is persisted when the input was a string.\<close>

definition save_initial :: "'w agent_config \<Rightarrow> input_context \<Rightarrow> 'w run_state \<Rightarrow> 'w run_state" where
  "save_initial cfg inputContext st =
     (case inputContext of
        History ms \<Rightarrow> st
      | Text c \<Rightarrow>
          (case saveFunction cfg of
             None \<Rightarrow> st
           | Some save \<Rightarrow>
               save_swallowed ''Failed to save user message:'' save (last (messages st)) st))"

text \<open>
  Line 40: \<open>this.config.max_tool_iterations || 1\<close>; undefined, 0 and NaN are falsy.
\<close>

definition maxIterations :: "'w agent_config \<Rightarrow> js_number" where
  "maxIterations cfg =
     (case max_tool_iterations cfg of
        None \<Rightarrow> Finite 1
      | Some m \<Rightarrow> if m = Finite 0 \<or> m = NaN then Finite 1 else m)"

text \<open>
  The loop counter \<open>iterations\<close> starts at 0 and is only incremented, so it is an
  integer. \<open>below\<close> is \<open>iterations < maxIterations\<close>. \<open>increment\<close> is \<open>iterations++\<close> on a
  double: up to \<open>2^53\<close> the sum is exact, and \<open>2^53 + 1\<close> rounds back to \<open>2^53\<close>.
\<close>

fun below :: "int \<Rightarrow> js_number \<Rightarrow> bool" where
  "below n (Finite q) = (of_int n < q)"
| "below n Infinity = True"
| "below n Neg_Infinity = False"
| "below n NaN = False"

definition increment :: "int \<Rightarrow> int" where
  "increment n = (if n < 2 ^ 53 then n + 1 else n)"

text \<open>Line 80: \<open>this.config.tools.find(t => t.name === call.name)\<close>.\<close>

definition find_tool :: "'w agent_tool list \<Rightarrow> tool_call \<Rightarrow> 'w agent_tool option" where
  "find_tool ts c = List.find (\<lambda>t. Some (t_name t) = call_name c) ts"

text \<open>Lines 88-93 and 102-107: the two tool-role messages.\<close>

definition tool_message :: "'w runtime \<Rightarrow> 'w agent_tool \<Rightarrow> tool_call \<Rightarrow> jsval \<Rightarrow> agent_message" where
  "tool_message rt tool c result =
     \<lparr>msg_role = Tool,
      msg_content = (case result of JStr s \<Rightarrow> JStr s | _ \<Rightarrow> JSON_stringify rt result),
      msg_name = Some (t_name tool), msg_tool_calls = None, msg_tool_call_id = call_id c,
      msg_usage = None, msg_meta = None\<rparr>"

definition error_message :: "'w agent_tool \<Rightarrow> tool_call \<Rightarrow> exn \<Rightarrow> agent_message" where
  "error_message tool c e =
     \<lparr>msg_role = Tool,
      msg_content = JStr (''Error: '' @ (if is_Error e then exn_message e else exn_String e)),
      msg_name = Some (t_name tool), msg_tool_calls = None, msg_tool_call_id = call_id c,
      msg_usage = None, msg_meta = None\<rparr>"

text \<open>Lines 99-109: the \<open>catch (e)\<close> of one tool call.\<close>

definition tool_catch :: "'w agent_tool \<Rightarrow> tool_call \<Rightarrow> exn \<Rightarrow> 'w run_state \<Rightarrow> 'w run_state" where
  "tool_catch tool c e st =
     push (error_message tool c e) (console_error (''Error executing tool '' @ t_name tool @ '':'') e st)"

text \<open>
  Lines 80-110: one iteration of \<open>for (const call of response.tool_calls)\<close> for a call
  object. The first component of the result is \<open>lastToolResult\<close>.
\<close>

definition dispatch_call ::
  "'w runtime \<Rightarrow> 'w agent_config \<Rightarrow> 'w agent_tool list \<Rightarrow> tool_call \<Rightarrow> jsval \<Rightarrow> 'w run_state
     \<Rightarrow> jsval \<times> 'w run_state" where
  "dispatch_call rt cfg ts c lastToolResult st =
     (case find_tool ts c of
        None \<Rightarrow> (lastToolResult, st)
      | Some tool \<Rightarrow>
          (let st1 = emit (Tool_start (t_name tool) (call_arguments c)) st
           in case execute tool (call_arguments c) (world st1) of
                (r, w') \<Rightarrow>
                  (let st2 = st1\<lparr>trace := trace st1 @ [Execute c r], world := w'\<rparr>
                   in case r of
                        Inl e \<Rightarrow> (lastToolResult, tool_catch tool c e st2)
                      | Inr result \<Rightarrow>
                          (let st3 = emit (Tool_end (t_name tool) result) st2;
                               toolMsg = tool_message rt tool c result;
                               st4 = push toolMsg st3
                           in case saveFunction cfg of
                                None \<Rightarrow> (result, st4)
                              | Some save \<Rightarrow>
                                  (case call_save save toolMsg st4 of
                                     (None, st5) \<Rightarrow> (result, st5)
                                   | (Some e, st5) \<Rightarrow> (result, tool_catch tool c e st5))))))"

text \<open>
  Reading \<open>call.name\<close> of an undefined element throws a TypeError; the text of its
  message is the engine's.
\<close>

definition TypeError_name_of_undefined :: exn where
  "TypeError_name_of_undefined =
     Exn True ''Cannot read properties of undefined (reading name)''
       ''TypeError: Cannot read properties of undefined (reading name)''"

text \<open>
  Lines 78-111: the whole \<open>for\<close> loop. For an undefined element the callback of \<open>find\<close>
  throws as soon as it is called, that is unless the tool set is empty; that throw is
  outside the inner \<open>try\<close>.
\<close>

fun dispatch ::
  "'w runtime \<Rightarrow> 'w agent_config \<Rightarrow> 'w agent_tool list \<Rightarrow> tool_call option list \<Rightarrow> jsval
     \<Rightarrow> 'w run_state \<Rightarrow> (exn + jsval) \<times> 'w run_state" where
  "dispatch rt cfg ts [] lastToolResult st = (Inr lastToolResult, st)"
| "dispatch rt cfg ts (None # calls) lastToolResult st =
     (if ts = [] then dispatch rt cfg ts calls lastToolResult st
      else (Inl TypeError_name_of_undefined, st))"
| "dispatch rt cfg ts (Some c # calls) lastToolResult st =
     (case dispatch_call rt cfg ts c lastToolResult st of
        (l, st') \<Rightarrow> dispatch rt cfg ts calls l st')"

text \<open>Lines 67-71: the assistant's tool-call message.\<close>

definition assistant_message :: "agent_response \<Rightarrow> agent_message" where
  "assistant_message response =
     \<lparr>msg_role = Assistant,
      msg_content = (if truthy (content response) then content response else JNull),
      msg_name = None, msg_tool_calls = tool_calls response, msg_tool_call_id = None,
      msg_usage = None, msg_meta = None\<rparr>"

text \<open>Lines 59-62: the original text becomes \<open>message\<close> when the content is a string.\<close>

definition capture_message :: "agent_response \<Rightarrow> agent_response" where
  "capture_message response =
     (case content response of
        JStr s \<Rightarrow> response\<lparr>message := Some s\<rparr>
      | _ \<Rightarrow> response)"

text \<open>
  Lines 45-126: the body of the \<open>while\<close> loop, with \<open>iterations\<close> already incremented.
  The result is the thrown value, or \<open>lastResponse\<close> and whether the loop continues.
  The hook call of lines 74-76 is not inside a \<open>try\<close>.
\<close>

definition turn ::
  "'w runtime \<Rightarrow> 'w agent_config \<Rightarrow> js_number \<Rightarrow> int \<Rightarrow> 'w run_state
     \<Rightarrow> (exn + agent_response \<times> bool) \<times> 'w run_state" where
  "turn rt cfg maxIt iterations st =
     (case provider cfg (messages st) (world st) of
        ((tokens, g), w1) \<Rightarrow>
          (let st1 = st\<lparr>trace := trace st @ map (\<lambda>t. Emit (Token t)) tokens
                                  @ [Generate (messages st) g],
                        world := w1\<rparr>
           in case g of
                Inl e \<Rightarrow> (Inl e, st1)
              | Inr response \<Rightarrow>
                  (let lastResponse = capture_message response
                   in case tool_calls response of
                        None \<Rightarrow> (Inr (lastResponse, False), st1)
                      | Some calls \<Rightarrow>
                          (case tools cfg of
                             None \<Rightarrow> (Inr (lastResponse, False), st1)
                           | Some ts \<Rightarrow>
                               (let assistantMsg = assistant_message response;
                                    st2 = push assistantMsg st1
                                in case (case saveFunction cfg of
                                           None \<Rightarrow> (None, st2)
                                         | Some save \<Rightarrow> call_save save assistantMsg st2) of
                                     (Some e, st3) \<Rightarrow> (Inl e, st3)
                                   | (None, st3) \<Rightarrow>
                                       (case dispatch rt cfg ts calls JNull st3 of
                                          (Inl e, st4) \<Rightarrow> (Inl e, st4)
                                        | (Inr lastToolResult, st4) \<Rightarrow>
                                            (Inr (if maxIt = Finite 1 \<and> lastToolResult \<noteq> JNull
                                                  then lastResponse\<lparr>content := lastToolResult\<rparr>
                                                  else lastResponse,
                                                  below iterations maxIt), st4)))))))"

text \<open>
  Lines 44-127: the \<open>while\<close> loop; the result is the thrown value or \<open>lastResponse\<close>.
  The loop need not end (a ceiling that is infinite, or above \<open>2^53\<close> where the counter
  stops growing, and a provider that always asks for tools): \<open>None\<close> is the run that
  never leaves it.
\<close>

partial_function (option) run_loop ::
  "'w runtime \<Rightarrow> 'w agent_config \<Rightarrow> js_number \<Rightarrow> int \<Rightarrow> agent_response option
     \<Rightarrow> 'w run_state \<Rightarrow> ((exn + agent_response option) \<times> 'w run_state) option" where
  "run_loop rt cfg maxIt iterations lastResponse st =
     (if below iterations maxIt then
        (case turn rt cfg maxIt (increment iterations) st of
           (Inl e, st') \<Rightarrow> Some (Inl e, st')
         | (Inr (r, again), st') \<Rightarrow>
             if again then run_loop rt cfg maxIt (increment iterations) (Some r) st'
             else Some (Inr (Some r), st'))
      else Some (Inr lastResponse, st))"

declare run_loop.simps [code]

definition no_response_error :: exn where
  "no_response_error =
     Exn True ''Agent failed to generate a response''
       ''Error: Agent failed to generate a response''"

definition final_message :: "agent_response \<Rightarrow> agent_message" where
  "final_message r =
     \<lparr>msg_role = Assistant, msg_content = content r, msg_name = None, msg_tool_calls = None,
      msg_tool_call_id = None, msg_usage = Some (usage r), msg_meta = Some (meta r)\<rparr>"

text \<open>Lines 15-42: everything before the \<open>try\<close>.\<close>

definition start_run ::
  "'w runtime \<Rightarrow> 'w agent_config \<Rightarrow> input_context \<Rightarrow> 'w \<Rightarrow> 'w run_state" where
  "start_run rt cfg inputContext w =
     save_initial cfg inputContext
       \<lparr>messages = init_messages cfg inputContext,
        trace = [Emit (Start (now rt w) inputContext)],
        world = w\<rparr>"

text \<open>
  What the \<open>catch\<close> of lines 128-135 itself throws: reading \<open>error.message\<close> of
  \<open>undefined\<close> or \<open>null\<close>, and \<open>emit('error', ...)\<close> without a listener. The texts of the
  messages are the engine's and are cut short here.
\<close>

definition TypeError_message_of_nullish :: exn where
  "TypeError_message_of_nullish =
     Exn True ''Cannot read properties of undefined (reading message)''
       ''TypeError: Cannot read properties of undefined (reading message)''"

definition ERR_UNHANDLED_ERROR :: exn where
  "ERR_UNHANDLED_ERROR = Exn True ''Unhandled error.'' ''Error: Unhandled error.''"

text \<open>
  Lines 128-159: the \<open>catch\<close> of the loop and the rest of \<open>run\<close>. In the \<open>catch\<close>, the
  payload is built first (line 131 reads \<open>error.message\<close>), then \<open>emit\<close> is called, then
  \<open>error\<close> is thrown again; whatever throws on the way is what the caller gets.
\<close>

definition finish_run ::
  "'w runtime \<Rightarrow> 'w agent_config \<Rightarrow> int \<Rightarrow> (exn + agent_response option) \<times> 'w run_state
     \<Rightarrow> (exn + agent_response) \<times> 'w run_state" where
  "finish_run rt cfg startTime out =
     (case out of
        (Inl error, st) \<Rightarrow>
          if nullish error then (Inl TypeError_message_of_nullish, st)
          else
            (let st' = emit (Error_event ''execution_error''
                         (if exn_message error \<noteq> [] then exn_message error
                          else exn_String error)
                         error) st
             in if error_listener rt then (Inl error, st') else (Inl ERR_UNHANDLED_ERROR, st'))
      | (Inr None, st) \<Rightarrow> (Inl no_response_error, st)
      | (Inr (Some lastResponse), st) \<Rightarrow>
          (let r = lastResponse\<lparr>meta := (meta lastResponse)\<lparr>latency_ms := now rt (world st) - startTime\<rparr>\<rparr>;
               st' = (case saveFunction cfg of
                        None \<Rightarrow> st
                      | Some save \<Rightarrow>
                          save_swallowed ''Failed to save assistant response:'' save (final_message r) st)
           in (Inr r, emit (Response r) st')))"

text \<open>\<open>Agent.run\<close>: \<open>None\<close> when the loop never ends.\<close>

definition run ::
  "'w runtime \<Rightarrow> 'w agent_config \<Rightarrow> input_context \<Rightarrow> 'w
     \<Rightarrow> ((exn + agent_response) \<times> 'w run_state) option" where
  "run rt cfg inputContext w =
     map_option (finish_run rt cfg (now rt w))
       (run_loop rt cfg (maxIterations cfg) 0 None (start_run rt cfg inputContext w))"

text \<open>
  What a run that returns has returned (or thrown), the trace it leaves and the history
  it built; a run that never returns has returned nothing.
\<close>

definition returned ::
  "((exn + agent_response) \<times> 'w run_state) option \<Rightarrow> (exn + agent_response) option" where
  "returned r = map_option fst r"

definition trace_of :: "((exn + agent_response) \<times> 'w run_state) option \<Rightarrow> action list" where
  "trace_of r = (case r of None \<Rightarrow> [] | Some (res, st) \<Rightarrow> trace st)"

definition history_of ::
  "((exn + agent_response) \<times> 'w run_state) option \<Rightarrow> agent_message list" where
  "history_of r = (case r of None \<Rightarrow> [] | Some (res, st) \<Rightarrow> messages st)"

section \<open>Stream accumulation of the chat-completions adapters\<close>

text \<open>
  \<open>OpenAIProvider.generate\<close> (src/providers/openai.ts, lines 122-193) and
  \<open>GrokProvider.generate\<close> for a chat model (lines 183-250 of the Grok adapter) consume
  the stream with the same code, modelled once here. The stream is the list of chunks
  received; of a chunk the code reads \<open>choices[0]?.delta?.content\<close>,
  \<open>choices[0]?.delta?.tool_calls\<close> and \<open>usage\<close>.
\<close>

record function_delta =
  fn_name :: "string option"
  fn_arguments :: "string option"

record tool_call_delta =
  tc_index :: nat
  tc_id :: "string option"
  tc_function :: "function_delta option"

record usage_report =
  prompt_tokens :: int
  completion_tokens :: int
  report_total_tokens :: int

record chunk =
  delta_content :: "string option"
  delta_tool_calls :: "tool_call_delta list option"
  chunk_usage :: "usage_report option"

record accumulator =
  fullContent :: string
  toolCalls :: "tool_call_delta option list"
  acc_usage :: usage_t
  on_token :: "string list"

text \<open>
  A JavaScript array that may have holes: reading past the end or at a hole gives
  undefined, writing past the end extends the array with holes.
\<close>

definition array_get :: "'a option list \<Rightarrow> nat \<Rightarrow> 'a option" where
  "array_get xs i = (if i < length xs then xs ! i else None)"

definition array_set :: "'a option list \<Rightarrow> nat \<Rightarrow> 'a \<Rightarrow> 'a option list" where
  "array_set xs i v =
     (if i < length xs then xs[i := Some v]
      else xs @ replicate (i - length xs) None @ [Some v])"

text \<open>\<open>x += s\<close> for a property \<open>x\<close> that is a string or undefined.\<close>

definition js_append :: "string option \<Rightarrow> string \<Rightarrow> string" where
  "js_append cur s = (case cur of None \<Rightarrow> ''undefined'' @ s | Some t \<Rightarrow> t @ s)"

text \<open>Assigning to a property of an undefined \<open>function\<close> throws; the text is the engine's.\<close>

definition TypeError_property_of_undefined :: exn where
  "TypeError_property_of_undefined =
     Exn True ''Cannot read properties of undefined''
       ''TypeError: Cannot read properties of undefined''"

text \<open>Line 143: \<open>if (tc.function?.name) toolCalls[index].function!.name += tc.function.name\<close>.\<close>

definition merge_name :: "tool_call_delta \<Rightarrow> tool_call_delta \<Rightarrow> exn + tool_call_delta" where
  "merge_name cur tc =
     (case tc_function tc of
        None \<Rightarrow> Inr cur
      | Some f \<Rightarrow>
          (case fn_name f of
             None \<Rightarrow> Inr cur
           | Some n \<Rightarrow>
               if n = [] then Inr cur
               else (case tc_function cur of
                       None \<Rightarrow> Inl TypeError_property_of_undefined
                     | Some cf \<Rightarrow>
                         Inr (cur\<lparr>tc_function := Some (cf\<lparr>fn_name := Some (js_append (fn_name cf) n)\<rparr>)\<rparr>))))"

text \<open>Line 144, the same for \<open>arguments\<close>.\<close>

definition merge_arguments :: "tool_call_delta \<Rightarrow> tool_call_delta \<Rightarrow> exn + tool_call_delta" where
  "merge_arguments cur tc =
     (case tc_function tc of
        None \<Rightarrow> Inr cur
      | Some f \<Rightarrow>
          (case fn_arguments f of
             None \<Rightarrow> Inr cur
           | Some a \<Rightarrow>
               if a = [] then Inr cur
               else (case tc_function cur of
                       None \<Rightarrow> Inl TypeError_property_of_undefined
                     | Some cf \<Rightarrow>
                         Inr (cur\<lparr>tc_function := Some (cf\<lparr>fn_arguments := Some (js_append (fn_arguments cf) a)\<rparr>)\<rparr>))))"

text \<open>Lines 138-145: one fragment.\<close>

definition accumulate_delta ::
  "tool_call_delta option list \<Rightarrow> tool_call_delta \<Rightarrow> exn + tool_call_delta option list" where
  "accumulate_delta tcs tc =
     (case array_get tcs (tc_index tc) of
        None \<Rightarrow> Inr (array_set tcs (tc_index tc) tc)
      | Some cur \<Rightarrow>
          (case merge_name cur tc of
             Inl e \<Rightarrow> Inl e
           | Inr cur1 \<Rightarrow>
               (case merge_arguments cur1 tc of
                  Inl e \<Rightarrow> Inl e
                | Inr cur2 \<Rightarrow> Inr (array_set tcs (tc_index tc) cur2))))"

text \<open>Line 137: \<open>for (const tc of chunkToolCalls)\<close>.\<close>

fun accumulate_deltas ::
  "tool_call_delta option list \<Rightarrow> tool_call_delta list \<Rightarrow> exn + tool_call_delta option list" where
  "accumulate_deltas tcs [] = Inr tcs"
| "accumulate_deltas tcs (tc # rest) =
     (case accumulate_delta tcs tc of
        Inl e \<Rightarrow> Inl e
      | Inr tcs' \<Rightarrow> accumulate_deltas tcs' rest)"

text \<open>Lines 128-159: one chunk. An empty \<open>content\<close> is falsy and skipped.\<close>

definition accumulate_chunk :: "chunk \<Rightarrow> accumulator \<Rightarrow> exn option \<times> accumulator" where
  "accumulate_chunk ch acc =
     (let acc1 = (case delta_content ch of
                    None \<Rightarrow> acc
                  | Some token \<Rightarrow>
                      if token = [] then acc
                      else acc\<lparr>fullContent := fullContent acc @ token,
                               on_token := on_token acc @ [token]\<rparr>)
      in case (case delta_tool_calls ch of
                 None \<Rightarrow> Inr (toolCalls acc1)
               | Some chunkToolCalls \<Rightarrow> accumulate_deltas (toolCalls acc1) chunkToolCalls) of
           Inl e \<Rightarrow> (Some e, acc1)
         | Inr tcs \<Rightarrow>
             (None,
              (case chunk_usage ch of
                 None \<Rightarrow> acc1\<lparr>toolCalls := tcs\<rparr>
               | Some u \<Rightarrow>
                   acc1\<lparr>toolCalls := tcs,
                        acc_usage := \<lparr>input_tokens = prompt_tokens u,
                                      output_tokens = completion_tokens u,
                                      total_tokens = report_total_tokens u,
                                      reasoning_tokens = None\<rparr>\<rparr>)))"

text \<open>Line 127: \<open>for await (const chunk of stream)\<close>.\<close>

fun stream_loop :: "chunk list \<Rightarrow> accumulator \<Rightarrow> exn option \<times> accumulator" where
  "stream_loop [] acc = (None, acc)"
| "stream_loop (ch # chunks) acc =
     (case accumulate_chunk ch acc of
        (Some e, acc') \<Rightarrow> (Some e, acc')
      | (None, acc') \<Rightarrow> stream_loop chunks acc')"

definition initial_accumulator :: accumulator where
  "initial_accumulator =
     \<lparr>fullContent = [], toolCalls = [],
      acc_usage = \<lparr>input_tokens = 0, output_tokens = 0, total_tokens = 0, reasoning_tokens = None\<rparr>,
      on_token = []\<rparr>"

text \<open>
  Lines 177-181: one element of \<open>genericToolCalls\<close>. \<open>parse\<close> is \<open>JSON.parse\<close>, which
  throws a SyntaxError (\<open>Inl\<close>) on text that is not JSON.
\<close>

definition generic_call :: "(string \<Rightarrow> exn + jsval) \<Rightarrow> tool_call_delta \<Rightarrow> exn + tool_call" where
  "generic_call parse tc =
     (let nm = (case tc_function tc of None \<Rightarrow> None | Some f \<Rightarrow> fn_name f);
          args = (case tc_function tc of
                    None \<Rightarrow> Inr (JObj [])
                  | Some f \<Rightarrow>
                      (case fn_arguments f of
                         None \<Rightarrow> Inr (JObj [])
                       | Some a \<Rightarrow> if a = [] then Inr (JObj []) else parse a))
      in case args of
           Inl e \<Rightarrow> Inl e
         | Inr v \<Rightarrow> Inr \<lparr>call_name = nm, call_arguments = v, call_id = tc_id tc\<rparr>)"

text \<open>\<open>toolCalls.map\<close>: holes are skipped and stay holes.\<close>

fun generic_tool_calls ::
  "(string \<Rightarrow> exn + jsval) \<Rightarrow> tool_call_delta option list \<Rightarrow> exn + tool_call option list" where
  "generic_tool_calls parse [] = Inr []"
| "generic_tool_calls parse (None # tcs) =
     (case generic_tool_calls parse tcs of
        Inl e \<Rightarrow> Inl e
      | Inr cs \<Rightarrow> Inr (None # cs))"
| "generic_tool_calls parse (Some tc # tcs) =
     (case generic_call parse tc of
        Inl e \<Rightarrow> Inl e
      | Inr c \<Rightarrow>
          (case generic_tool_calls parse tcs of
             Inl e \<Rightarrow> Inl e
           | Inr cs \<Rightarrow> Inr (Some c # cs)))"

text \<open>
  Lines 162-172: structured output. \<open>finalContent\<close> is assigned by \<open>JSON.parse\<close> before
  \<open>output_schema.parse\<close> runs; either throw is caught and passed to \<open>console.warn\<close>.
  The result is \<open>finalContent\<close> and the warnings.
\<close>

definition structured_output ::
  "(string \<Rightarrow> exn + jsval) \<Rightarrow> (jsval \<Rightarrow> exn option) option \<Rightarrow> accumulator \<Rightarrow> jsval \<times> exn list" where
  "structured_output parse output_schema acc =
     (case output_schema of
        None \<Rightarrow> (JStr (fullContent acc), [])
      | Some schema \<Rightarrow>
          if toolCalls acc = [] then
            (case parse (fullContent acc) of
               Inl e \<Rightarrow> (JStr (fullContent acc), [e])
             | Inr v \<Rightarrow>
                 (case schema v of
                    None \<Rightarrow> (v, [])
                  | Some e \<Rightarrow> (v, [e])))
          else (JStr (fullContent acc), []))"

record generate_result =
  tokens_sent :: "string list"
  warnings :: "exn list"
  outcome :: "exn + agent_response"

text \<open>Lines 122-193: from the opened stream to the returned response.\<close>

definition chat_stream_generate ::
  "(string \<Rightarrow> exn + jsval) \<Rightarrow> (jsval \<Rightarrow> exn option) option \<Rightarrow> string \<Rightarrow> chunk list
     \<Rightarrow> generate_result" where
  "chat_stream_generate parse output_schema model_name chunks =
     (case stream_loop chunks initial_accumulator of
        (Some e, acc) \<Rightarrow> \<lparr>tokens_sent = on_token acc, warnings = [], outcome = Inl e\<rparr>
      | (None, acc) \<Rightarrow>
          (case structured_output parse output_schema acc of
             (finalContent, ws) \<Rightarrow>
               (case (if toolCalls acc = [] then Inr None
                      else (case generic_tool_calls parse (toolCalls acc) of
                              Inl e \<Rightarrow> Inl e
                            | Inr cs \<Rightarrow> Inr (Some cs))) of
                  Inl e \<Rightarrow> \<lparr>tokens_sent = on_token acc, warnings = ws, outcome = Inl e\<rparr>
                | Inr genericToolCalls \<Rightarrow>
                    \<lparr>tokens_sent = on_token acc, warnings = ws,
                     outcome = Inr \<lparr>content = finalContent, tool_calls = genericToolCalls,
                                    message = None, usage = acc_usage acc,
                                    meta = \<lparr>model = model_name, latency_ms = 0, extras = []\<rparr>\<rparr>\<rparr>)))"

section \<open>Stream accumulation of the Gemini adapter\<close>

text \<open>
  \<open>GoogleProvider.generate\<close> (lines 209-321 of the Google adapter), from the opened stream
  to the returned response. Of a chunk the code reads the parts of the first candidate
  (\<open>chunk.candidates?.[0]?.content?.parts\<close>), \<open>usageMetadata\<close>, and the grounding
  metadata of the first candidate and of \<open>promptFeedback\<close>; of a part it reads \<open>text\<close>,
  \<open>functionCall\<close> and \<open>inlineData\<close>. An object is the list of its properties. The
  stream is the list of chunks received and ends without error; the parts of a chunk are
  objects, so that reading their properties does not throw.
\<close>

record function_call =
  fc_name :: "string option"
  fc_args :: jsval

record inline_data =
  mimeType :: "string option"
  data :: "string option"

record part =
  part_text :: "string option"
  functionCall :: "function_call option"
  inlineData :: "inline_data option"

record usage_metadata =
  promptTokenCount :: "int option"
  candidatesTokenCount :: "int option"
  totalTokenCount :: "int option"

record google_chunk =
  parts :: "part list option"
  usageMetadata :: "usage_metadata option"
  candidate_grounding :: "(string \<times> jsval) list option"
  feedback_grounding :: "(string \<times> jsval) list option"

record google_accumulator =
  fullText :: string
  g_toolCalls :: "tool_call list"
  g_usage :: usage_t
  groundingMetadata :: "(string \<times> jsval) list option"
  g_on_token :: "string list"

text \<open>\<open>{...a, ...b}\<close>: the properties of \<open>a\<close>, overwritten by those of \<open>b\<close>, then the
  properties that only \<open>b\<close> has; spreading \<open>undefined\<close> adds nothing.\<close>

definition spread ::
  "(string \<times> jsval) list option \<Rightarrow> (string \<times> jsval) list \<Rightarrow> (string \<times> jsval) list" where
  "spread a b =
     (let kvs = (case a of None \<Rightarrow> [] | Some kvs \<Rightarrow> kvs)
      in map (\<lambda>(k, v). (k, case map_of b k of None \<Rightarrow> v | Some v' \<Rightarrow> v')) kvs
         @ filter (\<lambda>(k, v). map_of kvs k = None) b)"

definition merge_grounding ::
  "(string \<times> jsval) list option \<Rightarrow> (string \<times> jsval) list option
     \<Rightarrow> (string \<times> jsval) list option" where
  "merge_grounding g found = (case found of None \<Rightarrow> g | Some m \<Rightarrow> Some (spread g m))"

text \<open>
  Lines 231-245: the function calls of the parts are pushed whole. The id is
  \<open>'call_' + Date.now()\<close>; \<open>clock n\<close> is the text of \<open>Date.now()\<close> when the call is
  pushed onto \<open>n\<close> earlier ones.
\<close>

fun collect_calls :: "(nat \<Rightarrow> string) \<Rightarrow> part list \<Rightarrow> tool_call list \<Rightarrow> tool_call list" where
  "collect_calls clock [] tcs = tcs"
| "collect_calls clock (p # ps) tcs =
     collect_calls clock ps
       (case functionCall p of
          None \<Rightarrow> tcs
        | Some fc \<Rightarrow>
            tcs @ [\<lparr>call_name = fc_name fc, call_arguments = fc_args fc,
                    call_id = Some (''call_'' @ clock (length tcs))\<rparr>])"

text \<open>Lines 249-260: a generated image is appended to the text as a markdown image.\<close>

definition interpolate :: "string option \<Rightarrow> string" where
  "interpolate s = (case s of None \<Rightarrow> ''undefined'' | Some t \<Rightarrow> t)"

fun append_images :: "part list \<Rightarrow> string \<Rightarrow> string" where
  "append_images [] txt = txt"
| "append_images (p # ps) txt =
     append_images ps
       (case inlineData p of
          None \<Rightarrow> txt
        | Some d \<Rightarrow>
            txt @ [CHR 0x0A] @ ''![Generated Image](data:'' @ interpolate (mimeType d)
              @ '';base64,'' @ interpolate (data d) @ '')'' @ [CHR 0x0A])"

definition or_zero :: "int option \<Rightarrow> int" where
  "or_zero n = (case n of None \<Rightarrow> 0 | Some k \<Rightarrow> k)"

text \<open>Lines 214-283: the body of \<open>for await (const chunk of result)\<close>.\<close>

definition google_chunk_step ::
  "(nat \<Rightarrow> string) \<Rightarrow> google_chunk \<Rightarrow> google_accumulator \<Rightarrow> google_accumulator" where
  "google_chunk_step clock ch acc =
     (let acc1 = (case parts ch of
                    Some (p # ps) \<Rightarrow>
                      (case part_text p of
                         None \<Rightarrow> acc
                       | Some t \<Rightarrow>
                           if t = [] then acc
                           else acc\<lparr>fullText := fullText acc @ t,
                                    g_on_token := g_on_token acc @ [t]\<rparr>)
                  | _ \<Rightarrow> acc);
          acc2 = (case parts ch of
                    None \<Rightarrow> acc1
                  | Some ps \<Rightarrow>
                      acc1\<lparr>g_toolCalls := collect_calls clock ps (g_toolCalls acc1),
                           fullText := append_images ps (fullText acc1)\<rparr>);
          acc3 = (case usageMetadata ch of
                    None \<Rightarrow> acc2
                  | Some u \<Rightarrow>
                      acc2\<lparr>g_usage := \<lparr>input_tokens = or_zero (promptTokenCount u),
                                        output_tokens = or_zero (candidatesTokenCount u),
                                        total_tokens = or_zero (totalTokenCount u),
                                        reasoning_tokens = None\<rparr>\<rparr>)
      in acc3\<lparr>groundingMetadata :=
                 merge_grounding (merge_grounding (groundingMetadata acc3) (candidate_grounding ch))
                   (feedback_grounding ch)\<rparr>)"

definition google_stream ::
  "(nat \<Rightarrow> string) \<Rightarrow> google_chunk list \<Rightarrow> google_accumulator \<Rightarrow> google_accumulator" where
  "google_stream clock chunks acc = fold (google_chunk_step clock) chunks acc"

definition google_initial :: google_accumulator where
  "google_initial =
     \<lparr>fullText = [], g_toolCalls = [],
      g_usage = \<lparr>input_tokens = 0, output_tokens = 0, total_tokens = 0, reasoning_tokens = None\<rparr>,
      groundingMetadata = None, g_on_token = []\<rparr>"

text \<open>
  Lines 290-299: the grounding metadata of \<open>result.response\<close>, first that of
  \<open>promptFeedback\<close>, then that of the first candidate. \<open>None\<close> is a final response that
  is not available: whatever throws there is caught and ignored.
\<close>

record final_response =
  final_feedback_grounding :: "(string \<times> jsval) list option"
  final_candidate_grounding :: "(string \<times> jsval) list option"

definition final_grounding ::
  "final_response option \<Rightarrow> (string \<times> jsval) list option \<Rightarrow> (string \<times> jsval) list option" where
  "final_grounding finalResponse g =
     (case finalResponse of
        None \<Rightarrow> g
      | Some f \<Rightarrow>
          merge_grounding (merge_grounding g (final_feedback_grounding f))
            (final_candidate_grounding f))"

text \<open>
  Lines 301-309: structured output. The schema is only tested for presence: the parsed
  value is not validated, and a throw of \<open>JSON.parse\<close> is caught and ignored, with no
  warning.
\<close>

definition google_structured_output ::
  "(string \<Rightarrow> exn + jsval) \<Rightarrow> (jsval \<Rightarrow> exn option) option \<Rightarrow> google_accumulator \<Rightarrow> jsval" where
  "google_structured_output parse output_schema acc =
     (case output_schema of
        None \<Rightarrow> JStr (fullText acc)
      | Some schema \<Rightarrow>
          if g_toolCalls acc = [] then
            (case parse (fullText acc) of
               Inl e \<Rightarrow> JStr (fullText acc)
             | Inr v \<Rightarrow> v)
          else JStr (fullText acc))"

text \<open>Lines 209-321. The metadata of the response has the property \<open>groundingMetadata\<close>.\<close>

definition google_generate ::
  "(string \<Rightarrow> exn + jsval) \<Rightarrow> (jsval \<Rightarrow> exn option) option \<Rightarrow> string \<Rightarrow> (nat \<Rightarrow> string)
     \<Rightarrow> google_chunk list \<Rightarrow> final_response option \<Rightarrow> generate_result" where
  "google_generate parse output_schema model_name clock chunks finalResponse =
     (let acc = google_stream clock chunks google_initial
      in \<lparr>tokens_sent = g_on_token acc, warnings = [],
          outcome =
            Inr \<lparr>content = google_structured_output parse output_schema acc,
                 tool_calls = (if g_toolCalls acc = [] then None
                               else Some (map Some (g_toolCalls acc))),
                 message = None, usage = g_usage acc,
                 meta = \<lparr>model = model_name, latency_ms = 0,
                         extras = [(''groundingMetadata'',
                                    (case final_grounding finalResponse (groundingMetadata acc) of
                                       None \<Rightarrow> JUndefined
                                     | Some kvs \<Rightarrow> JObj kvs))]\<rparr>\<rparr>\<rparr>)"

section \<open>Reading a trace\<close>

fun events :: "action list \<Rightarrow> agent_event list" where
  "events [] = []"
| "events (Emit ev # tr) = ev # events tr"
| "events (a # tr) = events tr"

fun generated :: "action list \<Rightarrow> (exn + agent_response) list" where
  "generated [] = []"
| "generated (Generate ms g # tr) = g # generated tr"
| "generated (a # tr) = generated tr"

fun executed :: "action list \<Rightarrow> (tool_call \<times> (exn + jsval)) list" where
  "executed [] = []"
| "executed (Execute c r # tr) = (c, r) # executed tr"
| "executed (a # tr) = executed tr"

fun saved :: "action list \<Rightarrow> agent_message list" where
  "saved [] = []"
| "saved (Save m r # tr) = m # saved tr"
| "saved (a # tr) = saved tr"

text \<open>The values returned by the tools that executed successfully, in order.\<close>

fun results :: "action list \<Rightarrow> jsval list" where
  "results [] = []"
| "results (Execute c (Inr v) # tr) = v # results tr"
| "results (a # tr) = results tr"

fun is_Response :: "agent_event \<Rightarrow> bool" where
  "is_Response (Response r) = True"
| "is_Response ev = False"

fun is_Error_event :: "agent_event \<Rightarrow> bool" where
  "is_Error_event (Error_event k m e) = True"
| "is_Error_event ev = False"

text \<open>The payloads of the \<open>tool_end\<close> events, in order.\<close>

fun tool_ends :: "agent_event list \<Rightarrow> jsval list" where
  "tool_ends [] = []"
| "tool_ends (Tool_end n v # evs) = v # tool_ends evs"
| "tool_ends (ev # evs) = tool_ends evs"

fun tool_starts :: "agent_event list \<Rightarrow> jsval list" where
  "tool_starts [] = []"
| "tool_starts (Tool_start n a # evs) = a # tool_starts evs"
| "tool_starts (ev # evs) = tool_starts evs"

text \<open>
  A stretch of trace in which no provider is called, no \<open>response\<close> or \<open>error\<close> event is
  emitted, the \<open>tool_end\<close> payloads are the successful results, every execution has its
  \<open>tool_start\<close> and only tool-role messages are persisted.
\<close>

definition calm :: "action list \<Rightarrow> bool" where
  "calm new \<longleftrightarrow> generated new = [] \<and> filter is_Response (events new) = []
     \<and> filter is_Error_event (events new) = [] \<and> tool_ends (events new) = results new
     \<and> length (tool_starts (events new)) = length (executed new)
     \<and> list_all (\<lambda>m. msg_role m = Tool) (saved new)"

definition last_or :: "'a \<Rightarrow> 'a list \<Rightarrow> 'a" where
  "last_or d xs = (if xs = [] then d else last xs)"

text \<open>Every failed execution in the trace has its error message among the messages.\<close>

definition failures_recorded ::
  "'w agent_tool list \<Rightarrow> action list \<Rightarrow> agent_message list \<Rightarrow> bool" where
  "failures_recorded ts new ms \<longleftrightarrow>
     (\<forall>c e tool. (c, Inl e) \<in> set (executed new) \<longrightarrow> find_tool ts c = Some tool
        \<longrightarrow> error_message tool c e \<in> set ms)"

text \<open>A stretch of trace with no \<open>response\<close> and no \<open>error\<close> event.\<close>

definition silent :: "action list \<Rightarrow> bool" where
  "silent new \<longleftrightarrow> filter is_Response (events new) = []
     \<and> filter is_Error_event (events new) = []"

text \<open>A stretch of trace that, besides, calls no provider and no tool.\<close>

definition quiet :: "action list \<Rightarrow> bool" where
  "quiet new \<longleftrightarrow> silent new \<and> generated new = [] \<and> executed new = []
     \<and> results new = [] \<and> tool_ends (events new) = [] \<and> tool_starts (events new) = []"

section \<open>Concrete collaborators\<close>

text \<open>
  Small agents over a world without state, used to run the model on concrete inputs.
  \<open>ex_stringify\<close> agrees with \<open>JSON.stringify\<close> on the values the examples pass to it.
\<close>

definition ex_stringify :: "jsval \<Rightarrow> jsval" where
  \<open>ex_stringify v =
     (if v = JUndefined then JUndefined
      else if v = JNull then JStr ''null''
      else if v = JObj [(''ok'', JBool True)] then JStr ''{"ok":true}''
      else JStr ''{}'')\<close>

definition ex_rt :: "unit runtime" where
  "ex_rt = \<lparr>JSON_stringify = ex_stringify, now = (\<lambda>w. 0), error_listener = True\<rparr>"

definition ex_usage :: usage_t where
  "ex_usage = \<lparr>input_tokens = 3, output_tokens = 4, total_tokens = 7, reasoning_tokens = None\<rparr>"

definition ex_meta :: meta_t where
  "ex_meta = \<lparr>model = ''gpt'', latency_ms = 0, extras = []\<rparr>"

definition lookup_call :: tool_call where
  "lookup_call = \<lparr>call_name = Some ''lookup'', call_arguments = JObj [], call_id = Some ''call_1''\<rparr>"

definition unknown_call :: tool_call where
  "unknown_call = \<lparr>call_name = Some ''missing'', call_arguments = JObj [], call_id = Some ''call_0''\<rparr>"

definition text_response :: agent_response where
  "text_response =
     \<lparr>content = JStr ''Hello'', tool_calls = None, message = None, usage = ex_usage, meta = ex_meta\<rparr>"

definition object_response :: agent_response where
  "object_response =
     \<lparr>content = JObj [(''answer'', JNum 42)], tool_calls = None, message = None,
      usage = ex_usage, meta = ex_meta\<rparr>"

definition tool_response :: agent_response where
  "tool_response =
     \<lparr>content = JStr ''Let me check.'', tool_calls = Some [Some lookup_call], message = None,
      usage = ex_usage, meta = ex_meta\<rparr>"

definition boom :: exn where
  "boom = Exn True ''boom'' ''Error: boom''"

definition disk_full :: exn where
  "disk_full = Exn True ''disk full'' ''Error: disk full''"

definition ok_tool :: "unit agent_tool" where
  "ok_tool = \<lparr>t_name = ''lookup'', description = ''looks something up'',
              execute = (\<lambda>args w. (Inr (JObj [(''ok'', JBool True)]), w))\<rparr>"


definition failing_tool :: "unit agent_tool" where
  "failing_tool = \<lparr>t_name = ''lookup'', description = ''always fails'',
                   execute = (\<lambda>args w. (Inl boom, w))\<rparr>"


definition failing_save :: "agent_message \<Rightarrow> unit \<Rightarrow> exn option \<times> unit" where
  "failing_save m w = (Some disk_full, w)"

definition answering :: "agent_response \<Rightarrow> agent_message list \<Rightarrow> unit
    \<Rightarrow> (string list \<times> (exn + agent_response)) \<times> unit" where
  "answering r ms w = (([''Hel'', ''lo''], Inr r), w)"

definition broken_provider :: "agent_message list \<Rightarrow> unit
    \<Rightarrow> (string list \<times> (exn + agent_response)) \<times> unit" where
  "broken_provider ms w = (([], Inl boom), w)"

definition ex_agent ::
  "(agent_message list \<Rightarrow> unit \<Rightarrow> (string list \<times> (exn + agent_response)) \<times> unit)
     \<Rightarrow> unit agent_tool list option
     \<Rightarrow> (agent_message \<Rightarrow> unit \<Rightarrow> exn option \<times> unit) option \<Rightarrow> unit agent_config" where
  "ex_agent p ts save =
     \<lparr>name = ''example'', provider = p, prompt = None, tools = ts, saveFunction = save,
      max_tool_iterations = None\<rparr>"

definition ex_state :: "unit run_state" where
  "ex_state = \<lparr>messages = [], trace = [], world = ()\<rparr>"

definition syntax_error :: exn where
  "syntax_error = Exn True ''Unexpected token'' ''SyntaxError: Unexpected token''"

definition zod_error :: exn where
  "zod_error = Exn True ''Invalid input'' ''ZodError: Invalid input''"

text \<open>\<open>JSON.parse\<close> restricted to the two texts the examples use: \<open>{}\<close> parses to the
  empty object, \<open>Sunny\<close> is not JSON.\<close>

definition ex_parse :: "string \<Rightarrow> exn + jsval" where
  "ex_parse s = (if s = ''{}'' then Inr (JObj []) else Inl syntax_error)"

text \<open>The schema \<open>z.object({city: z.string()})\<close>: \<open>parse\<close> throws unless the value is an
  object with a string \<open>city\<close>.\<close>

definition requires_city :: "jsval \<Rightarrow> exn option" where
  "requires_city v =
     (case v of
        JObj kvs \<Rightarrow> (case map_of kvs ''city'' of Some (JStr s) \<Rightarrow> None | _ \<Rightarrow> Some zod_error)
      | _ \<Rightarrow> Some zod_error)"

definition text_chunk :: "string \<Rightarrow> chunk" where
  "text_chunk s = \<lparr>delta_content = Some s, delta_tool_calls = None, chunk_usage = None\<rparr>"

text \<open>
  The fragments of Scenario E, one per chunk: \<open>{index:0, name:"get_"}\<close>,
  \<open>{index:0, name:"weather", arguments:"{\"c"}\<close>, \<open>{index:0, arguments:"ity\":\"SF\"}"}\<close>.
\<close>

definition scenario_E :: "chunk list" where
  \<open>scenario_E =
     [\<lparr>delta_content = None,
       delta_tool_calls = Some [\<lparr>tc_index = 0, tc_id = None,
          tc_function = Some \<lparr>fn_name = Some ''get_'', fn_arguments = None\<rparr>\<rparr>],
       chunk_usage = None\<rparr>,
      \<lparr>delta_content = None,
       delta_tool_calls = Some [\<lparr>tc_index = 0, tc_id = None,
          tc_function = Some \<lparr>fn_name = Some ''weather'', fn_arguments = Some ''{"c''\<rparr>\<rparr>],
       chunk_usage = None\<rparr>,
      \<lparr>delta_content = None,
       delta_tool_calls = Some [\<lparr>tc_index = 0, tc_id = None,
          tc_function = Some \<lparr>fn_name = None, fn_arguments = Some ''ity":"SF"}''\<rparr>\<rparr>],
       chunk_usage = None\<rparr>]\<close>

text \<open>A chunk of the Gemini stream that carries text only.\<close>

definition google_text_chunk :: "string \<Rightarrow> google_chunk" where
  "google_text_chunk s =
     \<lparr>parts = Some [\<lparr>part_text = Some s, functionCall = None, inlineData = None\<rparr>],
      usageMetadata = None, candidate_grounding = None, feedback_grounding = None\<rparr>"

definition ex_clock :: "nat \<Rightarrow> string" where
  "ex_clock n = ''1700000000000''"

text \<open>The runtime of an agent on which no listener for \<open>'error'\<close> was registered.\<close>

definition ex_rt_unheard :: "unit runtime" where
  "ex_rt_unheard = ex_rt\<lparr>error_listener := False\<rparr>"

text \<open>A provider whose promise rejects with \<open>undefined\<close>.\<close>

definition rejecting_undefined :: "agent_message list \<Rightarrow> unit
    \<Rightarrow> (string list \<times> (exn + agent_response)) \<times> unit" where
  "rejecting_undefined ms w = (([], Inl Thrown_undefined), w)"


text \<open>A response with two tool calls, the first to a tool that is not configured.\<close>

definition two_calls_response :: agent_response where
  "two_calls_response =
     \<lparr>content = JStr ''Let me check.'', tool_calls = Some [Some unknown_call, Some lookup_call],
      message = None, usage = ex_usage, meta = ex_meta\<rparr>"

section \<open>Traces of the parts of a run\<close>

lemma events_append: "events (a @ b) = events a @ events b"
  by (induction a rule: events.induct) simp_all

lemma generated_append: "generated (a @ b) = generated a @ generated b"
  by (induction a rule: generated.induct) simp_all

lemma executed_append: "executed (a @ b) = executed a @ executed b"
  by (induction a rule: executed.induct) simp_all

lemma saved_append: "saved (a @ b) = saved a @ saved b"
  by (induction a rule: saved.induct) simp_all

lemma results_append: "results (a @ b) = results a @ results b"
  by (induction a rule: results.induct) simp_all

lemma tool_ends_append: "tool_ends (a @ b) = tool_ends a @ tool_ends b"
  by (induction a rule: tool_ends.induct) simp_all

lemmas trace_append = events_append generated_append executed_append saved_append results_append
  tool_ends_append

lemma events_tokens: "events (map (\<lambda>t. Emit (Token t)) ts) = map Token ts"
  by (induction ts) simp_all

lemma generated_tokens: "generated (map (\<lambda>t. Emit (Token t)) ts) = []"
  by (induction ts) simp_all

lemma executed_tokens: "executed (map (\<lambda>t. Emit (Token t)) ts) = []"
  by (induction ts) simp_all

lemma results_tokens: "results (map (\<lambda>t. Emit (Token t)) ts) = []"
  by (induction ts) simp_all

lemma saved_tokens: "saved (map (\<lambda>t. Emit (Token t)) ts) = []"
  by (induction ts) simp_all

lemma filter_Token: "filter P (map Token ts) = [] " if "\<And>t. \<not> P (Token t)"
  using that by (induction ts) simp_all

text \<open>What one tool call adds to the trace and to the history.\<close>

lemma dispatch_call_cases:
  assumes "dispatch_call rt cfg ts c l st = (l', st')"
  shows "(find_tool ts c = None \<and> l' = l \<and> st' = st)
       \<or> (\<exists>tool e. find_tool ts c = Some tool \<and> l' = l
            \<and> trace st' = trace st @ [Emit (Tool_start (t_name tool) (call_arguments c)),
                  Execute c (Inl e), Console_error (''Error executing tool '' @ t_name tool @ '':'') e]
            \<and> messages st' = messages st @ [error_message tool c e])
       \<or> (\<exists>tool v. find_tool ts c = Some tool \<and> l' = v \<and> saveFunction cfg = None
            \<and> trace st' = trace st @ [Emit (Tool_start (t_name tool) (call_arguments c)),
                  Execute c (Inr v), Emit (Tool_end (t_name tool) v)]
            \<and> messages st' = messages st @ [tool_message rt tool c v])
       \<or> (\<exists>tool v. find_tool ts c = Some tool \<and> l' = v \<and> saveFunction cfg \<noteq> None
            \<and> trace st' = trace st @ [Emit (Tool_start (t_name tool) (call_arguments c)),
                  Execute c (Inr v), Emit (Tool_end (t_name tool) v),
                  Save (tool_message rt tool c v) None]
            \<and> messages st' = messages st @ [tool_message rt tool c v])
       \<or> (\<exists>tool v e. find_tool ts c = Some tool \<and> l' = v \<and> saveFunction cfg \<noteq> None
            \<and> trace st' = trace st @ [Emit (Tool_start (t_name tool) (call_arguments c)),
                  Execute c (Inr v), Emit (Tool_end (t_name tool) v),
                  Save (tool_message rt tool c v) (Some e),
                  Console_error (''Error executing tool '' @ t_name tool @ '':'') e]
            \<and> messages st' = messages st @ [tool_message rt tool c v, error_message tool c e])"
  using assms
  by (auto simp: dispatch_call_def Let_def emit_def push_def console_error_def call_save_def
        tool_catch_def split: option.splits sum.splits prod.splits)


lemma tool_starts_append: "tool_starts (a @ b) = tool_starts a @ tool_starts b"
  by (induction a rule: tool_starts.induct) simp_all

lemma calm_Nil: "calm []"
  by (simp add: calm_def)

lemma calm_append: "calm a \<Longrightarrow> calm b \<Longrightarrow> calm (a @ b)"
  by (simp add: calm_def trace_append tool_starts_append)

lemma last_or_append: "last_or d (xs @ ys) = last_or (last_or d xs) ys"
  by (simp add: last_or_def)

lemma failures_recorded_append:
  "failures_recorded ts a ms \<Longrightarrow> failures_recorded ts b ms' \<Longrightarrow>
   failures_recorded ts (a @ b) (ms @ ms')"
  by (auto simp: failures_recorded_def executed_append)

lemma dispatch_call_footprint:
  assumes "dispatch_call rt cfg ts c l st = (l', st')"
  shows "\<exists>new ms. trace st' = trace st @ new \<and> messages st' = messages st @ ms
           \<and> calm new \<and> l' = last_or l (results new) \<and> failures_recorded ts new ms
           \<and> (saveFunction cfg = None \<longrightarrow> saved new = [])
           \<and> length (executed new) \<le> 1"
  using dispatch_call_cases [OF assms]
  by (elim disjE exE conjE)
     (force simp: calm_def last_or_def failures_recorded_def tool_message_def error_message_def)+

lemma dispatch_footprint:
  "dispatch rt cfg ts calls l st = (out, st') \<Longrightarrow>
   \<exists>new ms. trace st' = trace st @ new \<and> messages st' = messages st @ ms
      \<and> calm new \<and> (\<forall>l'. out = Inr l' \<longrightarrow> l' = last_or l (results new))
      \<and> failures_recorded ts new ms
      \<and> (saveFunction cfg = None \<longrightarrow> saved new = [])
      \<and> length (executed new) \<le> length calls"
proof (induction calls arbitrary: l st)
  case Nil
  then show ?case
    by (auto simp: calm_Nil last_or_def failures_recorded_def intro!: exI [of _ "[]"])
next
  case (Cons a calls)
  show ?case
  proof (cases a)
    case None
    show ?thesis
    proof (cases "ts = []")
      case True
      with None Cons.prems have "dispatch rt cfg ts calls l st = (out, st')" by simp
      from Cons.IH [OF this] show ?thesis by auto
    next
      case False
      with None Cons.prems have "out = Inl TypeError_name_of_undefined" "st' = st" by simp_all
      then show ?thesis
        by (auto simp: calm_Nil failures_recorded_def intro!: exI [of _ "[]"])
    qed
  next
    case (Some c)
    obtain l1 st1 where one: "dispatch_call rt cfg ts c l st = (l1, st1)"
      by (cases "dispatch_call rt cfg ts c l st")
    with Some Cons.prems have rest: "dispatch rt cfg ts calls l1 st1 = (out, st')" by simp
    from dispatch_call_footprint [OF one] obtain n1 m1 where
      f1: "trace st1 = trace st @ n1" "messages st1 = messages st @ m1" "calm n1"
          "l1 = last_or l (results n1)" "failures_recorded ts n1 m1"
          "saveFunction cfg = None \<longrightarrow> saved n1 = []" "length (executed n1) \<le> 1"
      by auto
    from Cons.IH [OF rest] obtain n2 m2 where
      f2: "trace st' = trace st1 @ n2" "messages st' = messages st1 @ m2" "calm n2"
          "\<forall>l'. out = Inr l' \<longrightarrow> l' = last_or l1 (results n2)" "failures_recorded ts n2 m2"
          "saveFunction cfg = None \<longrightarrow> saved n2 = []" "length (executed n2) \<le> length calls"
      by auto
    have "trace st' = trace st @ (n1 @ n2)" "messages st' = messages st @ (m1 @ m2)"
      using f1 f2 by simp_all
    moreover have "calm (n1 @ n2)" using f1 f2 by (simp add: calm_append)
    moreover have "\<forall>l'. out = Inr l' \<longrightarrow> l' = last_or l (results (n1 @ n2))"
      using f1 f2 by (simp add: results_append last_or_append)
    moreover have "failures_recorded ts (n1 @ n2) (m1 @ m2)"
      using f1 f2 by (simp add: failures_recorded_append)
    moreover have "saveFunction cfg = None \<longrightarrow> saved (n1 @ n2) = []"
      using f1 f2 by (simp add: saved_append)
    moreover have "length (executed (n1 @ n2)) \<le> length (a # calls)"
      using f1 f2 by (simp add: executed_append)
    ultimately show ?thesis
      by (intro exI [of _ "n1 @ n2"] exI [of _ "m1 @ m2"]) simp
  qed
qed

lemma dispatch_raises:
  "dispatch rt cfg ts calls l st = (Inl e, st') \<Longrightarrow>
   e = TypeError_name_of_undefined \<and> None \<in> set calls \<and> ts \<noteq> []"
proof (induction calls arbitrary: l st)
  case Nil
  then show ?case by simp
next
  case (Cons a calls)
  then show ?case
    by (cases a) (auto split: if_splits prod.splits)
qed

text \<open>The four ways one turn of the loop can go.\<close>

lemma turn_cases:
  assumes "turn rt cfg maxIt it st = (out, st')"
  shows "\<exists>toks g. 
       (\<exists>e. g = Inl e \<and> out = Inl e
          \<and> trace st' = trace st @ map (\<lambda>t. Emit (Token t)) toks @ [Generate (messages st) g]
          \<and> messages st' = messages st)
     \<or> (\<exists>r. g = Inr r \<and> (tool_calls r = None \<or> tools cfg = None)
          \<and> out = Inr (capture_message r, False)
          \<and> trace st' = trace st @ map (\<lambda>t. Emit (Token t)) toks @ [Generate (messages st) g]
          \<and> messages st' = messages st)
     \<or> (\<exists>r e. g = Inr r \<and> tool_calls r \<noteq> None \<and> tools cfg \<noteq> None \<and> out = Inl e
          \<and> trace st' = trace st @ map (\<lambda>t. Emit (Token t)) toks @ [Generate (messages st) g]
                @ [Save (assistant_message r) (Some e)]
          \<and> messages st' = messages st @ [assistant_message r])
     \<or> (\<exists>r calls ts sv new ms. g = Inr r \<and> tool_calls r = Some calls \<and> tools cfg = Some ts
          \<and> trace st' = trace st @ map (\<lambda>t. Emit (Token t)) toks @ [Generate (messages st) g]
                @ sv @ new
          \<and> (sv = [] \<or> sv = [Save (assistant_message r) None])
          \<and> messages st' = messages st @ assistant_message r # ms
          \<and> calm new \<and> failures_recorded ts new ms
          \<and> (saveFunction cfg = None \<longrightarrow> sv = [] \<and> saved new = [])
          \<and> length (executed new) \<le> length calls
          \<and> (out = Inl TypeError_name_of_undefined \<and> None \<in> set calls
              \<or> out = Inr (if maxIt = Finite 1 \<and> last_or JNull (results new) \<noteq> JNull
                            then (capture_message r)\<lparr>content := last_or JNull (results new)\<rparr>
                            else capture_message r, below it maxIt)))"
proof -
  obtain toks g w1 where p: "provider cfg (messages st) (world st) = ((toks, g), w1)"
    by (metis prod.exhaust)
  define pre where "pre = map (\<lambda>t. Emit (Token t)) toks @ [Generate (messages st) g]"
  define st1 where "st1 = st\<lparr>trace := trace st @ pre, world := w1\<rparr>"
  have st1: "trace st1 = trace st @ pre" "messages st1 = messages st"
    by (simp_all add: st1_def)
  show ?thesis
  proof (cases g)
    case (Inl e)
    with assms p have "out = Inl e" "st' = st1"
      by (simp_all add: turn_def st1_def pre_def)
    with Inl st1 show ?thesis
      unfolding pre_def
      by - (rule exI [of _ toks], rule exI [of _ g], rule disjI1, simp)
  next
    case (Inr r)
    show ?thesis
    proof (cases "tool_calls r = None \<or> tools cfg = None")
      case True
      with assms p Inr have "out = Inr (capture_message r, False)" "st' = st1"
        by (auto simp: turn_def Let_def st1_def pre_def split: option.splits)
      with Inr st1 True show ?thesis
        unfolding pre_def
        by - (rule exI [of _ toks], rule exI [of _ g], rule disjI2, rule disjI1, simp)
    next
      case False
      then obtain calls ts where ct: "tool_calls r = Some calls" "tools cfg = Some ts"
        by auto
      define am where "am = assistant_message r"
      define st2 where "st2 = push am st1"
      obtain sr st3 where sv:
        "(case saveFunction cfg of None \<Rightarrow> (None, st2) | Some save \<Rightarrow> call_save save am st2) = (sr, st3)"
        by (metis prod.exhaust)
      then obtain sv where st3: "trace st3 = trace st1 @ sv" "messages st3 = messages st1 @ [am]"
        "sv = [] \<and> sr = None \<or> sv = [Save am sr] \<and> saveFunction cfg \<noteq> None"
        by (cases "saveFunction cfg")
           (auto simp: st2_def push_def call_save_def split: prod.splits)
      have body: "(case sr of
                     Some e \<Rightarrow> (Inl e, st3)
                   | None \<Rightarrow>
                       (case dispatch rt cfg ts calls JNull st3 of
                          (Inl e, st4) \<Rightarrow> (Inl e, st4)
                        | (Inr lastToolResult, st4) \<Rightarrow>
                            (Inr (if maxIt = Finite 1 \<and> lastToolResult \<noteq> JNull
                                  then (capture_message r)\<lparr>content := lastToolResult\<rparr>
                                  else capture_message r, below it maxIt), st4))) = (out, st')"
      proof (cases "saveFunction cfg")
        case None
        with sv have "sr = None" "st3 = st2" by simp_all
        with assms p Inr ct None show ?thesis
          by (simp add: turn_def Let_def st1_def pre_def st2_def am_def)
      next
        case (Some save)
        with sv have "call_save save am st2 = (sr, st3)" by simp
        with assms p Inr ct Some show ?thesis
          by (simp add: turn_def Let_def st1_def pre_def st2_def am_def)
      qed
      show ?thesis
      proof (cases sr)
        case (Some e)
        with body have "out = Inl e" "st' = st3" by simp_all
        with Inr ct st1 st3 Some show ?thesis
          unfolding pre_def am_def
          by - (rule exI [of _ toks], rule exI [of _ g], rule disjI2, rule disjI2, rule disjI1,
                rule exI [of _ r], rule exI [of _ e], auto)
      next
        case None
        obtain dout st4 where d: "dispatch rt cfg ts calls JNull st3 = (dout, st4)"
          by (metis prod.exhaust)
        from dispatch_footprint [OF d] obtain new ms where
          f: "trace st4 = trace st3 @ new" "messages st4 = messages st3 @ ms" "calm new"
             "\<forall>l'. dout = Inr l' \<longrightarrow> l' = last_or JNull (results new)"
             "failures_recorded ts new ms" "saveFunction cfg = None \<longrightarrow> saved new = []"
             "length (executed new) \<le> length calls"
          by auto
        have svn: "sv = [] \<or> sv = [Save (assistant_message r) None]"
          using st3 None by (auto simp: am_def)
        have tr: "trace st4 = trace st @ map (\<lambda>t. Emit (Token t)) toks @ [Generate (messages st) g] @ sv @ new"
          "messages st4 = messages st @ assistant_message r # ms"
          using f st1 st3 by (simp_all add: pre_def am_def)
        have nosave: "saveFunction cfg = None \<longrightarrow> sv = [] \<and> saved new = []"
          using f st3 by auto
        have "out = Inl TypeError_name_of_undefined \<and> None \<in> set calls \<and> st' = st4
              \<or> out = Inr (if maxIt = Finite 1 \<and> last_or JNull (results new) \<noteq> JNull
                            then (capture_message r)\<lparr>content := last_or JNull (results new)\<rparr>
                            else capture_message r, below it maxIt) \<and> st' = st4"
        proof (cases dout)
          case (Inl e)
          with d dispatch_raises have "e = TypeError_name_of_undefined" "None \<in> set calls"
            by blast+
          with body None d Inl show ?thesis by simp
        next
          case (Inr l')
          with f have "l' = last_or JNull (results new)" by simp
          with body None d Inr show ?thesis by simp
        qed
        then have fin: "out = Inl TypeError_name_of_undefined \<and> None \<in> set calls
              \<or> out = Inr (if maxIt = Finite 1 \<and> last_or JNull (results new) \<noteq> JNull
                            then (capture_message r)\<lparr>content := last_or JNull (results new)\<rparr>
                            else capture_message r, below it maxIt)" and "st' = st4"
          by auto
        show ?thesis
          apply (rule exI [of _ toks], rule exI [of _ g], rule disjI2, rule disjI2, rule disjI2)
          apply (rule exI [of _ r], rule exI [of _ calls], rule exI [of _ ts], rule exI [of _ sv],
                 rule exI [of _ new], rule exI [of _ ms])
          using Inr ct tr svn f nosave fin \<open>st' = st4\<close> by simp
      qed
    qed
  qed
qed

lemma quiet_simps:
  "quiet []" "quiet (Save m r # tr) = quiet tr" "quiet (Console_error s e # tr) = quiet tr"
  "quiet (Emit (Start t i) # tr) = quiet tr" "quiet (Emit (Token k) # tr) = quiet tr"
  by (simp_all add: quiet_def silent_def)

lemma quiet_append: "quiet a \<Longrightarrow> quiet b \<Longrightarrow> quiet (a @ b)"
  by (simp add: quiet_def silent_def trace_append tool_starts_append)

lemma save_swallowed_footprint:
  "\<exists>new. trace (save_swallowed label save m st) = trace st @ new \<and> quiet new
     \<and> messages (save_swallowed label save m st) = messages st"
  by (cases "save m (world st)")
     (auto simp: save_swallowed_def call_save_def console_error_def quiet_simps
        split: option.splits)

lemma start_run_footprint:
  "quiet (trace (start_run rt cfg inp w)) \<and> messages (start_run rt cfg inp w) = init_messages cfg inp"
proof (cases "\<exists>c save. inp = Text c \<and> saveFunction cfg = Some save")
  case True
  then obtain c save where "inp = Text c" "saveFunction cfg = Some save" by blast
  then show ?thesis
    using save_swallowed_footprint [of "''Failed to save user message:''" save
        "last (init_messages cfg inp)"
        "\<lparr>messages = init_messages cfg inp, trace = [Emit (Start (now rt w) inp)], world = w\<rparr>"]
    by (auto simp: start_run_def save_initial_def quiet_simps intro: quiet_append)
next
  case False
  then show ?thesis
    by (auto simp: start_run_def save_initial_def quiet_simps
        split: input_context.splits option.splits)
qed


lemma turn_footprint:
  assumes "turn rt cfg maxIt it st = (out, st')"
  shows "filter is_Response (events (trace st')) = filter is_Response (events (trace st))
       \<and> filter is_Error_event (events (trace st')) = filter is_Error_event (events (trace st))
       \<and> length (generated (trace st')) = length (generated (trace st)) + 1"
  using turn_cases [OF assms]
  by (elim exE disjE conjE)
     (simp_all add: trace_append events_tokens generated_tokens filter_Token calm_def)

text \<open>The loop emits neither a response nor an error event.\<close>

lemma run_loop_silent:
  "run_loop rt cfg maxIt it lastResponse st = Some y \<Longrightarrow>
     filter is_Response (events (trace (snd y))) = filter is_Response (events (trace st))
       \<and> filter is_Error_event (events (trace (snd y)))
           = filter is_Error_event (events (trace st))"
proof (erule run_loop.raw_induct [rotated, where P = "\<lambda>rt cfg maxIt it lastResponse st y.
     filter is_Response (events (trace (snd y))) = filter is_Response (events (trace st))
       \<and> filter is_Error_event (events (trace (snd y)))
           = filter is_Error_event (events (trace st))"], goal_cases)
  case (1 loop rt cfg maxIt it lastResponse st y)
  note IH = 1(1) and body = 1(2)
  show ?case
  proof (cases "below it maxIt")
    case False
    with body have "y = (Inr lastResponse, st)" by simp
    then show ?thesis by simp
  next
    case True
    obtain tout st1 where t: "turn rt cfg maxIt (increment it) st = (tout, st1)"
      by (metis prod.exhaust)
    note n1 = turn_footprint [OF t]
    show ?thesis
    proof (cases tout)
      case (Inl e)
      with body True t have "y = (Inl e, st1)" by simp
      with n1 show ?thesis by simp
    next
      case (Inr ra)
      obtain r again where ra: "ra = (r, again)" by (cases ra)
      show ?thesis
      proof (cases again)
        case False
        with body True t Inr ra have "y = (Inr (Some r), st1)" by simp
        with n1 show ?thesis by simp
      next
        case again: True
        with body True t Inr ra
        have rest: "loop rt cfg maxIt (increment it) (Some r) st1 = Some y" by simp
        from IH [OF rest] n1 show ?thesis by simp
      qed
    qed
  qed
qed

text \<open>
  Under a finite ceiling of at most \<open>2^53\<close> the counter is exact, the provider is called
  at most once for each integer from the counter up to the ceiling, and the loop ends.
\<close>

lemma increment_exact: "of_int it < q \<Longrightarrow> q \<le> 2 ^ 53 \<Longrightarrow> increment it = it + 1"
  for q :: rat
proof -
  assume a: "of_int it < q" "q \<le> 2 ^ 53"
  then have "(of_int it :: rat) < of_int (2 ^ 53)" by simp
  then have "it < 2 ^ 53" by (simp only: of_int_less_iff)
  then show ?thesis by (simp add: increment_def)
qed


lemma run_loop_returns:
  assumes "q \<le> 2 ^ 53"
  shows "\<exists>y. run_loop rt cfg (Finite q) it lastResponse st = Some y"
proof (induction "nat (\<lceil>q\<rceil> - it)" arbitrary: it lastResponse st)
  case 0
  then have "\<not> it < \<lceil>q\<rceil>" by arith
  then have "\<not> of_int it < q" by (simp only: less_ceiling_iff not_False_eq_True)
  then show ?case by (simp add: run_loop.simps [of rt cfg "Finite q" it lastResponse st])
next
  case (Suc n)
  then have pos: "it < \<lceil>q\<rceil>" by arith
  then have lt: "of_int it < q" by (simp add: less_ceiling_iff)
  note inc = increment_exact [OF lt assms]
  from Suc.hyps(2) have "n = nat (\<lceil>q\<rceil> - (it + 1))" by arith
  from Suc.hyps(1) [OF this]
  have rest: "\<exists>y. run_loop rt cfg (Finite q) (it + 1) l st' = Some y" for l st' .
  obtain tout st1 where t: "turn rt cfg (Finite q) (it + 1) st = (tout, st1)"
    by (metis prod.exhaust)
  show ?case
    using lt inc t rest
    by (cases tout)
       (auto simp: run_loop.simps [of rt cfg "Finite q" it lastResponse st] split: prod.splits)
qed

lemma finish_run_cases:
  assumes "finish_run rt cfg t0 (out, st) = (res, st')"
  shows "messages st' = messages st \<and>
     ((\<exists>e. out = Inl e \<and> nullish e \<and> res = Inl TypeError_message_of_nullish
         \<and> trace st' = trace st)
    \<or> (\<exists>e. out = Inl e \<and> \<not> nullish e
         \<and> res = Inl (if error_listener rt then e else ERR_UNHANDLED_ERROR)
         \<and> trace st' = trace st @ [Emit (Error_event ''execution_error''
              (if exn_message e \<noteq> [] then exn_message e else exn_String e) e)])
    \<or> (out = Inr None \<and> res = Inl no_response_error \<and> trace st' = trace st)
    \<or> (\<exists>r post. out = Inr (Some r)
         \<and> res = Inr (r\<lparr>meta := (meta r)\<lparr>latency_ms := now rt (world st) - t0\<rparr>\<rparr>)
         \<and> trace st' = trace st @ post
              @ [Emit (Response (r\<lparr>meta := (meta r)\<lparr>latency_ms := now rt (world st) - t0\<rparr>\<rparr>))]
         \<and> quiet post))"
proof (cases out)
  case (Inl e)
  with assms show ?thesis by (auto simp: finish_run_def emit_def Let_def split: if_splits)
next
  case (Inr last)
  show ?thesis
  proof (cases last)
    case None
    with assms Inr show ?thesis by (auto simp: finish_run_def)
  next
    case (Some r)
    define r' where "r' = r\<lparr>meta := (meta r)\<lparr>latency_ms := now rt (world st) - t0\<rparr>\<rparr>"
    show ?thesis
    proof (cases "saveFunction cfg")
      case None
      with assms Inr Some show ?thesis
        by (auto simp: finish_run_def emit_def Let_def quiet_simps)
    next
      case (Some save)
      from save_swallowed_footprint [of "''Failed to save assistant response:''" save
          "final_message r'" st]
      obtain post where "trace (save_swallowed ''Failed to save assistant response:'' save
          (final_message r') st) = trace st @ post" "quiet post"
          "messages (save_swallowed ''Failed to save assistant response:'' save
          (final_message r') st) = messages st"
        by auto
      with assms Inr \<open>last = Some r\<close> Some show ?thesis
        by (auto simp: finish_run_def emit_def Let_def r'_def)
    qed
  qed
qed

lemma finish_run_raised:
  assumes "finish_run rt cfg t0 (Inl e, st1) = (res, st)"
  shows "(\<exists>e'. res = Inl e')
       \<and> (trace st = trace st1 \<or> (\<exists>k m d. trace st = trace st1 @ [Emit (Error_event k m d)]))
       \<and> messages st = messages st1"
  using assms by (auto simp: finish_run_def emit_def Let_def split: if_splits)

lemma run_unfold:
  assumes "run rt cfg inp w = Some (res, st)"
  shows "\<exists>out st1. run_loop rt cfg (maxIterations cfg) 0 None (start_run rt cfg inp w)
                       = Some (out, st1)
           \<and> finish_run rt cfg (now rt w) (out, st1) = (res, st)"
  using assms by (auto simp: run_def)

lemma run_returns:
  assumes "maxIterations cfg = Finite q" and "q \<le> 2 ^ 53"
  shows "\<exists>res st. run rt cfg inp w = Some (res, st)"
proof -
  from run_loop_returns [OF assms(2), of rt cfg 0 None "start_run rt cfg inp w"]
  obtain y where "run_loop rt cfg (Finite q) 0 None (start_run rt cfg inp w) = Some y"
    by auto
  with assms(1) have "run rt cfg inp w = Some (finish_run rt cfg (now rt w) y)"
    by (simp add: run_def)
  then show ?thesis by (metis prod.exhaust)
qed



section \<open>Runs of a single turn\<close>

lemma tool_ends_tokens: "tool_ends (map Token toks) = []"
  by (induction toks) simp_all

lemma tool_starts_tokens: "tool_starts (map Token toks) = []"
  by (induction toks) simp_all

lemmas token_simps = events_tokens generated_tokens executed_tokens results_tokens saved_tokens
  tool_ends_tokens tool_starts_tokens filter_Token

lemmas append_simps = trace_append tool_starts_append

lemma turn_again:
  assumes "turn rt cfg maxIt it st = (Inr (r, again), st')" and again
  shows "below it maxIt"
  using turn_cases [OF assms(1)] assms(2) by auto

lemma run_loop_single:
  "run_loop rt cfg (Finite 1) 0 None st =
     Some (case turn rt cfg (Finite 1) 1 st of
             (Inl e, st') \<Rightarrow> (Inl e, st')
           | (Inr (r, again), st') \<Rightarrow> (Inr (Some r), st'))"
proof -
  have i: "increment 0 = 1" by (simp add: increment_def)
  obtain out st' where t: "turn rt cfg (Finite 1) 1 st = (out, st')" by (metis prod.exhaust)
  show ?thesis
  proof (cases out)
    case (Inl e)
    with t i show ?thesis by (simp add: run_loop.simps [of rt cfg "Finite 1" 0 None st])
  next
    case (Inr ra)
    obtain r again where ra: "ra = (r, again)" by (cases ra)
    with t Inr turn_again [of rt cfg "Finite 1" 1 st r again st'] have "\<not> again" by auto
    with t i Inr ra show ?thesis by (simp add: run_loop.simps [of rt cfg "Finite 1" 0 None st])
  qed
qed

lemma turn_summary:
  assumes "turn rt cfg (Finite 1) 1 st = (out, st')" and "quiet (trace st)"
  shows "silent (trace st') \<and> length (generated (trace st')) = 1
     \<and> tool_ends (events (trace st')) = results (trace st')
     \<and> length (tool_starts (events (trace st'))) = length (executed (trace st'))
     \<and> ((\<exists>e. out = Inl e
            \<and> (generated (trace st') = [Inl e] \<and> executed (trace st') = []
               \<or> (\<exists>r calls. generated (trace st') = [Inr r] \<and> tool_calls r = Some calls
                     \<and> tools cfg \<noteq> None \<and> (executed (trace st') = [] \<or> None \<in> set calls))))
        \<or> (\<exists>r. generated (trace st') = [Inr r]
            \<and> out = Inr (if last_or JNull (results (trace st')) \<noteq> JNull
                          then (capture_message r)\<lparr>content := last_or JNull (results (trace st'))\<rparr>
                          else capture_message r, False)
            \<and> (tool_calls r = None \<or> tools cfg = None \<longrightarrow> executed (trace st') = [])
            \<and> (\<forall>calls. tool_calls r = Some calls
                  \<longrightarrow> length (executed (trace st')) \<le> length calls)))"
  using turn_cases [OF assms(1)] assms(2) [unfolded quiet_def silent_def]
  by (elim exE disjE conjE)
     (simp_all add: append_simps token_simps silent_def calm_def last_or_def)

lemma capture_message_simps:
  "content (capture_message r) = content r" "tool_calls (capture_message r) = tool_calls r"
  "usage (capture_message r) = usage r" "meta (capture_message r) = meta r"
  by (simp_all add: capture_message_def split: jsval.splits)

lemma capture_message_text: "content r = JStr t \<Longrightarrow> message (capture_message r) = Some t"
  by (simp add: capture_message_def)


lemma single_run_unfold:
  assumes "maxIterations cfg = Finite 1" and "run rt cfg inp w = Some (res, st)"
  shows "\<exists>out st1. turn rt cfg (Finite 1) 1 (start_run rt cfg inp w) = (out, st1)
     \<and> finish_run rt cfg (now rt w)
          (case out of Inl e \<Rightarrow> Inl e | Inr (r, again) \<Rightarrow> Inr (Some r), st1) = (res, st)"
proof -
  obtain out st1 where t: "turn rt cfg (Finite 1) 1 (start_run rt cfg inp w) = (out, st1)"
    by (metis prod.exhaust)
  have "run rt cfg inp w = Some (finish_run rt cfg (now rt w)
          (case out of Inl e \<Rightarrow> Inl e | Inr (r, again) \<Rightarrow> Inr (Some r), st1))"
    using assms(1) t by (simp add: run_def run_loop_single split: sum.splits)
  with assms(2) t show ?thesis by simp
qed

lemma single_run:
  assumes "maxIterations cfg = Finite 1" and "run rt cfg inp w = Some (res, st)"
  shows "length (generated (trace st)) = 1
     \<and> tool_ends (events (trace st)) = results (trace st)
     \<and> length (tool_starts (events (trace st))) = length (executed (trace st))
     \<and> ((\<exists>e'. res = Inl e')
            \<and> ((\<exists>e. generated (trace st) = [Inl e] \<and> executed (trace st) = [])
               \<or> (\<exists>r calls. generated (trace st) = [Inr r] \<and> tool_calls r = Some calls
                     \<and> tools cfg \<noteq> None \<and> (executed (trace st) = [] \<or> None \<in> set calls)))
        \<or> (\<exists>r resp. generated (trace st) = [Inr r] \<and> res = Inr resp
            \<and> content resp = (if last_or JNull (results (trace st)) \<noteq> JNull
                               then last_or JNull (results (trace st)) else content r)
            \<and> message resp = message (capture_message r)
            \<and> tool_calls resp = tool_calls r
            \<and> last (events (trace st)) = Response resp
            \<and> (tool_calls r = None \<or> tools cfg = None \<longrightarrow> executed (trace st) = [])
            \<and> (\<forall>calls. tool_calls r = Some calls
                  \<longrightarrow> length (executed (trace st)) \<le> length calls)))"
proof -
  from single_run_unfold [OF assms] obtain out st1 where
    t: "turn rt cfg (Finite 1) 1 (start_run rt cfg inp w) = (out, st1)" and
    f: "finish_run rt cfg (now rt w)
          (case out of Inl e \<Rightarrow> Inl e | Inr (r, again) \<Rightarrow> Inr (Some r), st1) = (res, st)"
    by auto
  have q0: "quiet (trace (start_run rt cfg inp w))"
    using start_run_footprint [of rt cfg inp w] by simp
  note s = turn_summary [OF t q0]
  show ?thesis
  proof (cases out)
    case (Inl e)
    with f have f': "finish_run rt cfg (now rt w) (Inl e, st1) = (res, st)" by simp
    from finish_run_raised [OF f'] obtain e' where res: "res = Inl e'" by auto
    from finish_run_raised [OF f']
    consider "trace st = trace st1"
      | k m d where "trace st = trace st1 @ [Emit (Error_event k m d)]"
      by auto
    then show ?thesis
    proof cases
      case 1
      with s Inl res show ?thesis by auto
    next
      case 2
      with s Inl res show ?thesis by (auto simp: append_simps)
    qed
  next
    case (Inr x)
    with s obtain r where r: "generated (trace st1) = [Inr r]"
      "x = (if last_or JNull (results (trace st1)) \<noteq> JNull
            then (capture_message r)\<lparr>content := last_or JNull (results (trace st1))\<rparr>
            else capture_message r, False)"
      "tool_calls r = None \<or> tools cfg = None \<longrightarrow> executed (trace st1) = []"
      "\<forall>calls. tool_calls r = Some calls \<longrightarrow> length (executed (trace st1)) \<le> length calls"
      by auto
    define r' where "r' = fst x"
    have o: "(case out of Inl e \<Rightarrow> Inl e | Inr (r, again) \<Rightarrow> Inr (Some r)) = Inr (Some r')"
      using Inr by (simp add: r'_def split: prod.splits)
    from finish_run_cases [OF f [unfolded o]] obtain post where p:
      "res = Inr (r'\<lparr>meta := (meta r')\<lparr>latency_ms := now rt (world st1) - now rt w\<rparr>\<rparr>)"
      "trace st = trace st1 @ post
         @ [Emit (Response (r'\<lparr>meta := (meta r')\<lparr>latency_ms := now rt (world st1) - now rt w\<rparr>\<rparr>))]"
      "quiet post"
      by auto
    have c: "content r' = (if last_or JNull (results (trace st1)) \<noteq> JNull
                           then last_or JNull (results (trace st1)) else content r)"
      "message r' = message (capture_message r)" "tool_calls r' = tool_calls r"
      using r(2) by (simp_all add: r'_def capture_message_simps)
    from s r(1,3,4) p c show ?thesis
      by (simp add: append_simps quiet_def silent_def)
  qed
qed


text \<open>A run names its result only if it returned.\<close>

lemma trace_of_Some: "run rt cfg inp w = Some (res, st) \<Longrightarrow> trace_of (run rt cfg inp w) = trace st"
  by (simp add: trace_of_def)


lemma returned_Some: "run rt cfg inp w = Some (res, st) \<Longrightarrow> returned (run rt cfg inp w) = Some res"
  by (simp add: returned_def)

lemma single_run_returns:
  assumes "maxIterations cfg = Finite 1"
  shows "\<exists>res st. run rt cfg inp w = Some (res, st)"
  using run_returns [OF assms, of rt inp w] by simp

section \<open>Further facts about traces\<close>

lemma results_executed:
  "results tr = concat (map (\<lambda>x. case snd x of Inl e \<Rightarrow> [] | Inr v \<Rightarrow> [v]) (executed tr))"
  by (induction tr rule: results.induct) simp_all


lemma results_none: "executed tr = [] \<Longrightarrow> results tr = []"
  by (simp add: results_executed)


lemma dispatch_skip:
  assumes "find_tool ts c = None"
  shows "dispatch rt cfg ts (before @ Some c # after) l st = dispatch rt cfg ts (before @ after) l st"
proof (induction before arbitrary: l st)
  case Nil
  from assms show ?case by (simp add: dispatch_call_def)
next
  case (Cons a before)
  show ?case
  proof (cases a)
    case None
    with Cons show ?thesis by auto
  next
    case (Some d)
    with Cons show ?thesis by (simp split: prod.splits)
  qed
qed

text \<open>
  What one iteration of the dispatch executes: the call, if its tool is found, and
  nothing otherwise; a found call has its \<open>tool_start\<close> event.
\<close>

lemma dispatch_call_executes:
  assumes "dispatch_call rt cfg ts c l st = (l', st')"
  shows "map fst (executed (trace st'))
           = map fst (executed (trace st)) @ (if find_tool ts c = None then [] else [c])
       \<and> tool_starts (events (trace st'))
           = tool_starts (events (trace st))
               @ (if find_tool ts c = None then [] else [call_arguments c])"
  using dispatch_call_cases [OF assms]
  by (elim exE disjE conjE) (simp_all add: trace_append tool_starts_append)

text \<open>
  A list of call objects is dispatched to the end: every call whose tool is found is
  executed, in order, and the loop does not raise.
\<close>

lemma dispatch_executes:
  assumes "None \<notin> set calls"
  shows "\<exists>l' st'. dispatch rt cfg ts calls l st = (Inr l', st')
       \<and> map fst (executed (trace st'))
           = map fst (executed (trace st))
               @ filter (\<lambda>d. find_tool ts d \<noteq> None) (map the calls)
       \<and> tool_starts (events (trace st'))
           = tool_starts (events (trace st))
               @ map call_arguments (filter (\<lambda>d. find_tool ts d \<noteq> None) (map the calls))"
  using assms
proof (induction calls arbitrary: l st)
  case Nil
  show ?case by simp
next
  case (Cons a calls)
  then obtain c where a: "a = Some c" by (cases a) auto
  obtain l1 st1 where d: "dispatch_call rt cfg ts c l st = (l1, st1)" by (metis prod.exhaust)
  from Cons.prems have "None \<notin> set calls" by simp
  from Cons.IH [OF this, of l1 st1] obtain l' st' where
    r: "dispatch rt cfg ts calls l1 st1 = (Inr l', st')"
       "map fst (executed (trace st'))
           = map fst (executed (trace st1))
               @ filter (\<lambda>d. find_tool ts d \<noteq> None) (map the calls)"
       "tool_starts (events (trace st'))
           = tool_starts (events (trace st1))
               @ map call_arguments (filter (\<lambda>d. find_tool ts d \<noteq> None) (map the calls))"
    by auto
  from dispatch_call_executes [OF d] r a d show ?case by simp
qed

lemma turn_generated:
  assumes "turn rt cfg maxIt it st = (out, st')"
  shows "\<exists>g. generated (trace st') = generated (trace st) @ [g] \<and> (\<forall>e. g = Inl e \<longrightarrow> out = Inl e)"
  using turn_cases [OF assms]
  by (elim exE disjE conjE) (simp_all add: append_simps token_simps calm_def)

lemma run_loop_generated:
  "run_loop rt cfg maxIt it lastResponse st = Some y \<Longrightarrow>
   \<exists>gs. generated (trace (snd y)) = generated (trace st) @ gs
      \<and> (\<forall>e. Inl e \<in> set gs \<longrightarrow> fst y = Inl e)"
proof (erule run_loop.raw_induct [rotated, where P = "\<lambda>rt cfg maxIt it lastResponse st y.
   \<exists>gs. generated (trace (snd y)) = generated (trace st) @ gs
      \<and> (\<forall>e. Inl e \<in> set gs \<longrightarrow> fst y = Inl e)"], goal_cases)
  case (1 loop rt cfg maxIt it lastResponse st y)
  note IH = 1(1) and body = 1(2)
  show ?case
  proof (cases "below it maxIt")
    case False
    with body have "y = (Inr lastResponse, st)" by simp
    then show ?thesis by simp
  next
    case True
    obtain tout st1 where t: "turn rt cfg maxIt (increment it) st = (tout, st1)"
      by (metis prod.exhaust)
    from turn_generated [OF t] obtain g where
      g: "generated (trace st1) = generated (trace st) @ [g]" "\<forall>e. g = Inl e \<longrightarrow> tout = Inl e"
      by auto
    show ?thesis
    proof (cases tout)
      case (Inl e)
      with body True t have "y = (Inl e, st1)" by simp
      with g Inl show ?thesis by (intro exI [of _ "[g]"]) auto
    next
      case (Inr ra)
      obtain r again where ra: "ra = (r, again)" by (cases ra)
      from g Inr have notl: "\<forall>e. g \<noteq> Inl e" by auto
      show ?thesis
      proof (cases again)
        case False
        with body True t Inr ra have "y = (Inr (Some r), st1)" by simp
        with g notl show ?thesis by (intro exI [of _ "[g]"]) auto
      next
        case again: True
        with body True t Inr ra
        have rest: "loop rt cfg maxIt (increment it) (Some r) st1 = Some y" by simp
        from IH [OF rest] obtain gs where
          gs: "generated (trace (snd y)) = generated (trace st1) @ gs"
              "\<forall>e. Inl e \<in> set gs \<longrightarrow> fst y = Inl e"
          by auto
        with g notl show ?thesis by (intro exI [of _ "g # gs"]) auto
      qed
    qed
  qed
qed

text \<open>A generation that fails makes the loop raise its error.\<close>

lemma failed_generation_leaves_loop:
  assumes "Inl e \<in> set (generated (trace_of (run rt cfg inp w)))"
  shows "\<exists>st1. run_loop rt cfg (maxIterations cfg) 0 None (start_run rt cfg inp w)
                  = Some (Inl e, st1)"
proof -
  from assms obtain res st where r: "run rt cfg inp w = Some (res, st)"
    by (cases "run rt cfg inp w") (auto simp: trace_of_def)
  from run_unfold [OF r] obtain out st1 where
    l: "run_loop rt cfg (maxIterations cfg) 0 None (start_run rt cfg inp w) = Some (out, st1)" and
    f: "finish_run rt cfg (now rt w) (out, st1) = (res, st)"
    by auto
  have "generated (trace (start_run rt cfg inp w)) = []"
    using start_run_footprint [of rt cfg inp w] by (simp add: quiet_def)
  with run_loop_generated [OF l] obtain gs where
    gs: "generated (trace st1) = gs" "\<forall>e. Inl e \<in> set gs \<longrightarrow> out = Inl e"
    by auto
  have "generated (trace st) = generated (trace st1)"
    using finish_run_cases [OF f]
    by (elim exE disjE conjE) (simp_all add: append_simps quiet_def)
  with assms r gs have "out = Inl e" by (simp add: trace_of_def)
  with l show ?thesis by simp
qed

text \<open>
  A hook that throws on the initial user message and on the final assistant message is
  logged and swallowed (lines 31-36 and 146-155).
\<close>

lemma hook_failure_elsewhere_is_swallowed:
  "returned (run ex_rt (ex_agent (answering text_response) None (Some failing_save))
       (Text ''hi'') ())
     = Some (Inr (text_response\<lparr>message := Some ''Hello''\<rparr>))
   \<and> trace_of (run ex_rt (ex_agent (answering text_response) None (Some failing_save))
       (Text ''hi'') ())
     = [Emit (Start 0 (Text ''hi'')),
        Save (plain_message User (JStr ''hi'')) (Some disk_full),
        Console_error ''Failed to save user message:'' disk_full,
        Emit (Token ''Hel''), Emit (Token ''lo''),
        Generate [plain_message User (JStr ''hi'')] (Inr text_response),
        Save (final_message (text_response\<lparr>message := Some ''Hello''\<rparr>)) (Some disk_full),
        Console_error ''Failed to save assistant response:'' disk_full,
        Emit (Response (text_response\<lparr>message := Some ''Hello''\<rparr>))]"
  by code_simp

text \<open>
  Merging a fragment into a call whose \<open>name\<close> and \<open>arguments\<close> are strings is string
  concatenation.
\<close>

lemma merge_name_concatenates:
  assumes "tc_function cur = Some cf" and "fn_name cf = Some a"
    and "tc_function tc = Some f" and "fn_name f = Some b"
  shows "merge_name cur tc = Inr (cur\<lparr>tc_function := Some (cf\<lparr>fn_name := Some (a @ b)\<rparr>)\<rparr>)"
  using assms by (cases cur, cases cf) (simp add: merge_name_def js_append_def)

lemma merge_arguments_concatenates:
  assumes "tc_function cur = Some cf" and "fn_arguments cf = Some a"
    and "tc_function tc = Some f" and "fn_arguments f = Some b"
  shows "merge_arguments cur tc
           = Inr (cur\<lparr>tc_function := Some (cf\<lparr>fn_arguments := Some (a @ b)\<rparr>)\<rparr>)"
  using assms by (cases cur, cases cf) (simp add: merge_arguments_def js_append_def)

section \<open>A loop that does not end\<close>




section \<open>The claims\<close>




text \<open>
  C2, amended. When an output schema was requested, the stream was consumed and no tool
  call was accumulated, the call succeeds, in each of the three adapters. If
  \<open>JSON.parse\<close> of the accumulated text throws, the content is that text unchanged. If it
  returns a value, the content is that value, whether the schema accepts it or not. The
  chat-completions adapters (OpenAI, and Grok on a chat model) record a warning, the
  error of \<open>JSON.parse\<close> or of the schema; the Gemini adapter does not validate and
  records no warning.
\<close>

theorem structured_output_failure_is_swallowed:
  assumes "stream_loop chunks initial_accumulator = (None, acc)"
    and "toolCalls acc = []"
  shows "outcome (chat_stream_generate parse (Some schema) m chunks)
           = Inr \<lparr>content = (case parse (fullContent acc) of
                               Inl e \<Rightarrow> JStr (fullContent acc)
                             | Inr v \<Rightarrow> v),
                  tool_calls = None, message = None, usage = acc_usage acc,
                  meta = \<lparr>model = m, latency_ms = 0, extras = []\<rparr>\<rparr>
       \<and> warnings (chat_stream_generate parse (Some schema) m chunks)
           = (case parse (fullContent acc) of
                Inl e \<Rightarrow> [e]
              | Inr v \<Rightarrow> (case schema v of None \<Rightarrow> [] | Some e \<Rightarrow> [e]))
       \<and> (g_toolCalls (google_stream clock gchunks google_initial) = [] \<longrightarrow>
            outcome (google_generate parse (Some schema) m clock gchunks fin)
              = Inr \<lparr>content =
                       (case parse (fullText (google_stream clock gchunks google_initial)) of
                          Inl e \<Rightarrow> JStr (fullText (google_stream clock gchunks google_initial))
                        | Inr v \<Rightarrow> v),
                     tool_calls = None, message = None,
                     usage = g_usage (google_stream clock gchunks google_initial),
                     meta = \<lparr>model = m, latency_ms = 0,
                             extras = [(''groundingMetadata'',
                               (case final_grounding fin
                                       (groundingMetadata (google_stream clock gchunks google_initial)) of
                                  None \<Rightarrow> JUndefined
                                | Some kvs \<Rightarrow> JObj kvs))]\<rparr>\<rparr>
          \<and> warnings (google_generate parse (Some schema) m clock gchunks fin) = [])"
  using assms
  by (simp add: chat_stream_generate_def structured_output_def google_generate_def
      google_structured_output_def Let_def split: sum.splits option.splits)

theorem structured_output_witness:
  "stream_loop [text_chunk ''Sun'', text_chunk ''ny''] initial_accumulator
     = (None, initial_accumulator\<lparr>fullContent := ''Sunny'', on_token := [''Sun'', ''ny'']\<rparr>)
   \<and> toolCalls (initial_accumulator\<lparr>fullContent := ''Sunny'', on_token := [''Sun'', ''ny'']\<rparr>) = []
   \<and> ex_parse ''Sunny'' = Inl syntax_error
   \<and> outcome (chat_stream_generate ex_parse (Some requires_city) ''gpt''
        [text_chunk ''Sun'', text_chunk ''ny''])
       = Inr \<lparr>content = JStr ''Sunny'', tool_calls = None, message = None,
              usage = \<lparr>input_tokens = 0, output_tokens = 0, total_tokens = 0,
                       reasoning_tokens = None\<rparr>,
              meta = \<lparr>model = ''gpt'', latency_ms = 0, extras = []\<rparr>\<rparr>
   \<and> warnings (chat_stream_generate ex_parse (Some requires_city) ''gpt''
        [text_chunk ''Sun'', text_chunk ''ny'']) = [syntax_error]
   \<and> g_toolCalls (google_stream ex_clock [google_text_chunk ''Sun'', google_text_chunk ''ny'']
        google_initial) = []
   \<and> fullText (google_stream ex_clock [google_text_chunk ''Sun'', google_text_chunk ''ny'']
        google_initial) = ''Sunny''
   \<and> outcome (google_generate ex_parse (Some requires_city) ''gpt'' ex_clock
        [google_text_chunk ''Sun'', google_text_chunk ''ny''] None)
       = Inr \<lparr>content = JStr ''Sunny'', tool_calls = None, message = None,
              usage = \<lparr>input_tokens = 0, output_tokens = 0, total_tokens = 0,
                       reasoning_tokens = None\<rparr>,
              meta = \<lparr>model = ''gpt'', latency_ms = 0,
                      extras = [(''groundingMetadata'', JUndefined)]\<rparr>\<rparr>
   \<and> warnings (google_generate ex_parse (Some requires_city) ''gpt'' ex_clock
        [google_text_chunk ''Sun'', google_text_chunk ''ny''] None) = []"
proof -
  let ?acc = "initial_accumulator\<lparr>fullContent := ''Sunny'', on_token := [''Sun'', ''ny'']\<rparr>"
  let ?gchunks = "[google_text_chunk ''Sun'', google_text_chunk ''ny'']"
  have h1: "stream_loop [text_chunk ''Sun'', text_chunk ''ny''] initial_accumulator = (None, ?acc)"
    by code_simp
  have h2: "toolCalls ?acc = []" by code_simp
  have h3: "ex_parse ''Sunny'' = Inl syntax_error" by code_simp
  have h4: "g_toolCalls (google_stream ex_clock ?gchunks google_initial) = []" by code_simp
  have h5: "fullText (google_stream ex_clock ?gchunks google_initial) = ''Sunny''" by code_simp
  have h6: "g_usage (google_stream ex_clock ?gchunks google_initial)
              = \<lparr>input_tokens = 0, output_tokens = 0, total_tokens = 0, reasoning_tokens = None\<rparr>"
    by code_simp
  have h7: "groundingMetadata (google_stream ex_clock ?gchunks google_initial) = None"
    by code_simp
  from structured_output_failure_is_swallowed [OF h1 h2, of ex_parse requires_city "''gpt''"
      ex_clock ?gchunks None] h1 h2 h3 h4 h5 h6 h7
  show ?thesis by (simp add: initial_accumulator_def final_grounding_def)
qed

text \<open>
  The claim as stated fails when the text parses and the schema rejects the value:
  \<open>finalContent\<close> was assigned before \<open>output_schema.parse\<close> threw, so the parsed value
  is returned, not the raw text. It also fails in the Gemini adapter, which returns the
  parsed value without validating it and records no warning, neither then nor when
  \<open>JSON.parse\<close> throws.
\<close>

theorem invalid_structured_output_is_returned_parsed:
  \<open>stream_loop [text_chunk ''{}''] initial_accumulator
     = (None, initial_accumulator\<lparr>fullContent := ''{}'', on_token := [''{}'']\<rparr>)
   \<and> ex_parse ''{}'' = Inr (JObj [])
   \<and> requires_city (JObj []) = Some zod_error
   \<and> outcome (chat_stream_generate ex_parse (Some requires_city) ''gpt'' [text_chunk ''{}''])
       = Inr \<lparr>content = JObj [], tool_calls = None, message = None,
              usage = \<lparr>input_tokens = 0, output_tokens = 0, total_tokens = 0,
                       reasoning_tokens = None\<rparr>,
              meta = \<lparr>model = ''gpt'', latency_ms = 0, extras = []\<rparr>\<rparr>
   \<and> JObj [] \<noteq> JStr ''{}''
   \<and> warnings (chat_stream_generate ex_parse (Some requires_city) ''gpt'' [text_chunk ''{}''])
       = [zod_error]
   \<and> outcome (google_generate ex_parse (Some requires_city) ''gemini'' ex_clock
        [google_text_chunk ''{}''] None)
       = Inr \<lparr>content = JObj [], tool_calls = None, message = None,
              usage = \<lparr>input_tokens = 0, output_tokens = 0, total_tokens = 0,
                       reasoning_tokens = None\<rparr>,
              meta = \<lparr>model = ''gemini'', latency_ms = 0,
                      extras = [(''groundingMetadata'', JUndefined)]\<rparr>\<rparr>
   \<and> warnings (google_generate ex_parse (Some requires_city) ''gemini'' ex_clock
        [google_text_chunk ''{}''] None) = []
   \<and> ex_parse ''Sunny'' = Inl syntax_error
   \<and> warnings (google_generate ex_parse (Some requires_city) ''gemini'' ex_clock
        [google_text_chunk ''Sunny''] None) = []\<close>
  by code_simp

text \<open>
  C3. On the fragments of Scenario E the accumulated name is \<open>get_weather\<close>, but the
  accumulated arguments are the text \<open>undefined{"city":"SF"}\<close>: the first fragment has no
  \<open>arguments\<close>, and \<open>+=\<close> on the undefined property prepends \<open>undefined\<close>. That text is
  what \<open>JSON.parse\<close> receives, whatever \<open>JSON.parse\<close> does with it. Where the fields
  are present the merge does concatenate (\<open>merge_name_concatenates\<close>,
  \<open>merge_arguments_concatenates\<close>).
\<close>

theorem scenario_E_accumulates_undefined_prefix:
  \<open>outcome (chat_stream_generate parse None m scenario_E) =
     (case parse ''undefined{"city":"SF"}'' of
        Inl e \<Rightarrow> Inl e
      | Inr v \<Rightarrow>
          Inr \<lparr>content = JStr [],
               tool_calls = Some [Some \<lparr>call_name = Some ''get_weather'', call_arguments = v,
                                        call_id = None\<rparr>],
               message = None,
               usage = \<lparr>input_tokens = 0, output_tokens = 0, total_tokens = 0,
                        reasoning_tokens = None\<rparr>,
               meta = \<lparr>model = m, latency_ms = 0, extras = []\<rparr>\<rparr>)\<close>
  by (simp add: chat_stream_generate_def scenario_E_def initial_accumulator_def
      accumulate_chunk_def accumulate_delta_def array_get_def array_set_def merge_name_def
      merge_arguments_def js_append_def structured_output_def generic_call_def split: sum.splits)

text \<open>
  C4. A hook that throws on the assistant's tool-call message (lines 74-76, outside any
  \<open>try\<close>) aborts the run: the caller gets the hook's error, an error event is emitted, no
  response event, and no tool is executed. At the two other places the same hook is
  swallowed (\<open>hook_failure_elsewhere_is_swallowed\<close>).
\<close>

theorem hook_failure_on_tool_call_message_aborts:
  "returned (run ex_rt (ex_agent (answering tool_response) (Some [ok_tool]) (Some failing_save))
          (Text ''hi'') ()) = Some (Inl disk_full)
   \<and> filter is_Response (events (trace_of
        (run ex_rt (ex_agent (answering tool_response) (Some [ok_tool]) (Some failing_save))
          (Text ''hi'') ()))) = []
   \<and> filter is_Error_event (events (trace_of
        (run ex_rt (ex_agent (answering tool_response) (Some [ok_tool]) (Some failing_save))
          (Text ''hi'') ()))) = [Error_event ''execution_error'' ''disk full'' disk_full]
   \<and> executed (trace_of
        (run ex_rt (ex_agent (answering tool_response) (Some [ok_tool]) (Some failing_save))
          (Text ''hi'') ())) = []"
  by code_simp







text \<open>
  C7, amended. When an exception \<open>e\<close> raised during generation or tool dispatch leaves
  the loop, that is when the \<open>try\<close> block of \<open>run\<close> raises \<open>e\<close>, and \<open>e\<close> is neither
  \<open>undefined\<close> nor \<open>null\<close>, and a listener for \<open>'error'\<close> is registered, then exactly
  one error event is emitted, of kind \<open>execution_error\<close>, the caller gets \<open>e\<close>, and no
  response event is emitted. A generation that fails is such an exception
  (\<open>failed_generation_leaves_loop\<close>); so is a throw of the hook on the assistant's
  tool-call message.
\<close>

theorem raised_exception_notified_and_rethrown:
  assumes "run_loop rt cfg (maxIterations cfg) 0 None (start_run rt cfg inp w) = Some (Inl e, st1)"
    and "error_listener rt"
    and "\<not> nullish e"
  shows "returned (run rt cfg inp w) = Some (Inl e)
       \<and> filter is_Error_event (events (trace_of (run rt cfg inp w)))
           = [Error_event ''execution_error''
                (if exn_message e \<noteq> [] then exn_message e else exn_String e) e]
       \<and> filter is_Response (events (trace_of (run rt cfg inp w))) = []"
proof -
  have "quiet (trace (start_run rt cfg inp w))"
    using start_run_footprint [of rt cfg inp w] by simp
  with run_loop_silent [OF assms(1)]
  have s1: "filter is_Response (events (trace st1)) = []"
    "filter is_Error_event (events (trace st1)) = []"
    by (simp_all add: quiet_def silent_def)
  have "run rt cfg inp w = Some (finish_run rt cfg (now rt w) (Inl e, st1))"
    using assms(1) by (simp add: run_def)
  with s1 assms(2,3) show ?thesis
    by (simp add: finish_run_def emit_def trace_append returned_def trace_of_def)
qed

theorem raised_exception_witness:
  "run_loop ex_rt (ex_agent broken_provider None None)
          (maxIterations (ex_agent broken_provider None None)) 0 None
          (start_run ex_rt (ex_agent broken_provider None None) (Text ''hi'') ())
     = Some (Inl boom,
         \<lparr>messages = [plain_message User (JStr ''hi'')],
          trace = [Emit (Start 0 (Text ''hi'')),
                   Generate [plain_message User (JStr ''hi'')] (Inl boom)],
          world = ()\<rparr>)
   \<and> error_listener ex_rt
   \<and> \<not> nullish boom
   \<and> returned (run ex_rt (ex_agent broken_provider None None) (Text ''hi'') ()) = Some (Inl boom)
   \<and> filter is_Error_event
        (events (trace_of (run ex_rt (ex_agent broken_provider None None) (Text ''hi'') ())))
       = [Error_event ''execution_error'' ''boom'' boom]
   \<and> filter is_Response
        (events (trace_of (run ex_rt (ex_agent broken_provider None None) (Text ''hi'') ()))) = []"
proof -
  have h1: "run_loop ex_rt (ex_agent broken_provider None None)
          (maxIterations (ex_agent broken_provider None None)) 0 None
          (start_run ex_rt (ex_agent broken_provider None None) (Text ''hi'') ())
     = Some (Inl boom,
         \<lparr>messages = [plain_message User (JStr ''hi'')],
          trace = [Emit (Start 0 (Text ''hi'')),
                   Generate [plain_message User (JStr ''hi'')] (Inl boom)],
          world = ()\<rparr>)"
    by code_simp
  have h2: "error_listener ex_rt" by (simp add: ex_rt_def)
  have h3: "\<not> nullish boom" by (simp add: boom_def)
  from raised_exception_notified_and_rethrown [OF h1 h2 h3] h1 h2 h3 show ?thesis
    by (simp add: boom_def)
qed

text \<open>
  The claim as stated fails in three ways. An exception raised by a tool's \<open>execute\<close> is
  caught by the inner \<open>try\<close> of the dispatch (lines 82-109): no error event is emitted
  and the run resolves with its response event. Without a listener for \<open>'error'\<close>,
  \<open>emit('error', ...)\<close> itself throws, and the caller gets that error instead of the
  exception. For a provider that rejects with \<open>undefined\<close>, reading \<open>error.message\<close>
  throws a TypeError before \<open>emit\<close> is called: no error event, and the caller gets the
  TypeError.
\<close>

theorem raised_exception_recovered_or_replaced:
  "executed (trace_of (run ex_rt (ex_agent (answering tool_response) (Some [failing_tool]) None)
        (Text ''hi'') ())) = [(lookup_call, Inl boom)]
   \<and> returned (run ex_rt (ex_agent (answering tool_response) (Some [failing_tool]) None)
        (Text ''hi'') ()) = Some (Inr (tool_response\<lparr>message := Some ''Let me check.''\<rparr>))
   \<and> filter is_Error_event (events (trace_of (run ex_rt
        (ex_agent (answering tool_response) (Some [failing_tool]) None) (Text ''hi'') ()))) = []
   \<and> filter is_Response (events (trace_of (run ex_rt
        (ex_agent (answering tool_response) (Some [failing_tool]) None) (Text ''hi'') ())))
       = [Response (tool_response\<lparr>message := Some ''Let me check.''\<rparr>)]
   \<and> generated (trace_of (run ex_rt_unheard (ex_agent broken_provider None None)
        (Text ''hi'') ())) = [Inl boom]
   \<and> returned (run ex_rt_unheard (ex_agent broken_provider None None) (Text ''hi'') ())
       = Some (Inl ERR_UNHANDLED_ERROR)
   \<and> ERR_UNHANDLED_ERROR \<noteq> boom
   \<and> generated (trace_of (run ex_rt (ex_agent rejecting_undefined None None)
        (Text ''hi'') ())) = [Inl Thrown_undefined]
   \<and> returned (run ex_rt (ex_agent rejecting_undefined None None) (Text ''hi'') ())
       = Some (Inl TypeError_message_of_nullish)
   \<and> TypeError_message_of_nullish \<noteq> Thrown_undefined
   \<and> filter is_Error_event (events (trace_of (run ex_rt
        (ex_agent rejecting_undefined None None) (Text ''hi'') ()))) = []"
  by code_simp

text \<open>
  C8, amended. In a run with ceiling 1 whose provider response has text content and no
  tool calls, the returned response has that text both as content and as message.
\<close>

theorem text_without_tool_calls_is_message:
  assumes "maxIterations cfg = Finite 1"
    and "generated (trace_of (run rt cfg inp w)) = [Inr r]"
    and "tool_calls r = None \<or> tool_calls r = Some []"
    and "content r = JStr t"
    and "returned (run rt cfg inp w) = Some (Inr resp)"
  shows "content resp = JStr t \<and> message resp = Some t"
proof -
  from single_run_returns [OF assms(1), of rt inp w] obtain res st where
    rs: "run rt cfg inp w = Some (res, st)" by auto
  note tr = trace_of_Some [OF rs] and re = returned_Some [OF rs]
  from single_run [OF assms(1) rs] assms(2-5) tr re
  have "content resp = (if last_or JNull (results (trace st)) \<noteq> JNull
                        then last_or JNull (results (trace st)) else content r)"
    "message resp = Some t" "executed (trace st) = []"
    by (auto simp: capture_message_text)
  moreover from \<open>executed (trace st) = []\<close> have "results (trace st) = []"
    by (rule results_none)
  ultimately show ?thesis using assms(4) by (simp add: last_or_def)
qed

theorem text_without_tool_calls_witness:
  "maxIterations (ex_agent (answering text_response) None None) = Finite 1
   \<and> generated (trace_of (run ex_rt (ex_agent (answering text_response) None None)
         (Text ''hi'') ())) = [Inr text_response]
   \<and> tool_calls text_response = None
   \<and> content text_response = JStr ''Hello''
   \<and> returned (run ex_rt (ex_agent (answering text_response) None None) (Text ''hi'') ())
       = Some (Inr (text_response\<lparr>message := Some ''Hello''\<rparr>))
   \<and> content (text_response\<lparr>message := Some ''Hello''\<rparr>) = JStr ''Hello''
   \<and> message (text_response\<lparr>message := Some ''Hello''\<rparr>) = Some ''Hello''"
proof -
  let ?cfg = "ex_agent (answering text_response) None None"
  have h1: "maxIterations ?cfg = Finite 1" by code_simp
  have h2: "generated (trace_of (run ex_rt ?cfg (Text ''hi'') ())) = [Inr text_response]"
    by code_simp
  have h3: "tool_calls text_response = None \<or> tool_calls text_response = Some []" by code_simp
  have h4: "content text_response = JStr ''Hello''" by code_simp
  have h5: "returned (run ex_rt ?cfg (Text ''hi'') ())
              = Some (Inr (text_response\<lparr>message := Some ''Hello''\<rparr>))"
    by code_simp
  from text_without_tool_calls_is_message [OF h1 h2 h3 h4 h5] h1 h2 h3 h4 h5
  show ?thesis by (simp add: text_response_def)
qed

text \<open>
  The claim as stated fails when the provider's content is not text, as for structured
  output that parsed: line 60 sets \<open>message\<close> only if \<open>typeof response.content\<close> is
  \<open>'string'\<close>, so the content is an object and the message stays undefined.
\<close>

theorem structured_content_has_no_message:
  "maxIterations (ex_agent (answering object_response) None None) = Finite 1
   \<and> generated (trace_of (run ex_rt (ex_agent (answering object_response) None None)
         (Text ''hi'') ())) = [Inr object_response]
   \<and> tool_calls object_response = None
   \<and> returned (run ex_rt (ex_agent (answering object_response) None None) (Text ''hi'') ())
       = Some (Inr object_response)
   \<and> content object_response = JObj [(''answer'', JNum 42)]
   \<and> message object_response = None"
  by code_simp

text \<open>
  C9. A tool call whose name matches no tool of the tool set is skipped: its iteration
  changes neither the events, nor the history, nor \<open>lastToolResult\<close>, and dispatching a
  list of calls that contains it is dispatching the list without it. The loop goes on
  with the remaining calls: when they are call objects, the dispatch reaches the end of
  the list and executes exactly the calls whose tool is found, in order, each with its
  \<open>tool_start\<close> event.
\<close>

theorem unknown_tool_call_is_skipped:
  assumes "find_tool ts c = None"
  shows "dispatch_call rt cfg ts c l st = (l, st)
       \<and> dispatch rt cfg ts (before @ Some c # after) l st
           = dispatch rt cfg ts (before @ after) l st
       \<and> (None \<notin> set (before @ after) \<longrightarrow>
            (\<exists>l' st'. dispatch rt cfg ts (before @ Some c # after) l st = (Inr l', st')
               \<and> map fst (executed (trace st'))
                   = map fst (executed (trace st))
                       @ filter (\<lambda>d. find_tool ts d \<noteq> None) (map the (before @ after))
               \<and> tool_starts (events (trace st'))
                   = tool_starts (events (trace st))
                       @ map call_arguments
                           (filter (\<lambda>d. find_tool ts d \<noteq> None) (map the (before @ after)))))"
proof (intro conjI impI)
  from assms show "dispatch_call rt cfg ts c l st = (l, st)"
    by (simp add: dispatch_call_def)
  show "dispatch rt cfg ts (before @ Some c # after) l st
          = dispatch rt cfg ts (before @ after) l st"
    by (rule dispatch_skip [OF assms])
  assume "None \<notin> set (before @ after)"
  from dispatch_executes [OF this, of rt cfg ts l st]
  show "\<exists>l' st'. dispatch rt cfg ts (before @ Some c # after) l st = (Inr l', st')
               \<and> map fst (executed (trace st'))
                   = map fst (executed (trace st))
                       @ filter (\<lambda>d. find_tool ts d \<noteq> None) (map the (before @ after))
               \<and> tool_starts (events (trace st'))
                   = tool_starts (events (trace st))
                       @ map call_arguments
                           (filter (\<lambda>d. find_tool ts d \<noteq> None) (map the (before @ after)))"
    by (simp only: dispatch_skip [OF assms])
qed

theorem unknown_tool_call_witness:
  "find_tool [ok_tool] unknown_call = None
   \<and> find_tool [ok_tool] lookup_call = Some ok_tool
   \<and> None \<notin> set ([] @ [Some lookup_call])
   \<and> dispatch_call ex_rt (ex_agent (answering two_calls_response) (Some [ok_tool]) None) [ok_tool]
        unknown_call JNull ex_state = (JNull, ex_state)
   \<and> dispatch ex_rt (ex_agent (answering two_calls_response) (Some [ok_tool]) None) [ok_tool]
        ([] @ Some unknown_call # [Some lookup_call]) JNull ex_state
      = (Inr (JObj [(''ok'', JBool True)]),
         \<lparr>messages = [tool_message ex_rt ok_tool lookup_call (JObj [(''ok'', JBool True)])],
          trace = [Emit (Tool_start ''lookup'' (JObj [])),
                   Execute lookup_call (Inr (JObj [(''ok'', JBool True)])),
                   Emit (Tool_end ''lookup'' (JObj [(''ok'', JBool True)]))],
          world = ()\<rparr>)
   \<and> executed (trace_of (run ex_rt
        (ex_agent (answering two_calls_response) (Some [ok_tool]) None) (Text ''hi'') ()))
      = [(lookup_call, Inr (JObj [(''ok'', JBool True)]))]
   \<and> tool_starts (events (trace_of (run ex_rt
        (ex_agent (answering two_calls_response) (Some [ok_tool]) None) (Text ''hi'') ())))
      = [JObj []]
   \<and> tool_ends (events (trace_of (run ex_rt
        (ex_agent (answering two_calls_response) (Some [ok_tool]) None) (Text ''hi'') ())))
      = [JObj [(''ok'', JBool True)]]
   \<and> history_of (run ex_rt
        (ex_agent (answering two_calls_response) (Some [ok_tool]) None) (Text ''hi'') ())
      = [plain_message User (JStr ''hi''), assistant_message two_calls_response,
         tool_message ex_rt ok_tool lookup_call (JObj [(''ok'', JBool True)])]"
proof -
  let ?cfg = "ex_agent (answering two_calls_response) (Some [ok_tool]) None"
  have h: "find_tool [ok_tool] unknown_call = None"
    by (simp add: find_tool_def ok_tool_def unknown_call_def)
  have k: "find_tool [ok_tool] lookup_call = Some ok_tool"
    by (simp add: find_tool_def ok_tool_def lookup_call_def)
  have n: "None \<notin> set ([] @ [Some lookup_call])" by simp
  have d: "dispatch ex_rt ?cfg [ok_tool] ([] @ [Some lookup_call]) JNull ex_state
      = (Inr (JObj [(''ok'', JBool True)]),
         \<lparr>messages = [tool_message ex_rt ok_tool lookup_call (JObj [(''ok'', JBool True)])],
          trace = [Emit (Tool_start ''lookup'' (JObj [])),
                   Execute lookup_call (Inr (JObj [(''ok'', JBool True)])),
                   Emit (Tool_end ''lookup'' (JObj [(''ok'', JBool True)]))],
          world = ()\<rparr>)"
    by code_simp
  have r: "executed (trace_of (run ex_rt ?cfg (Text ''hi'') ()))
             = [(lookup_call, Inr (JObj [(''ok'', JBool True)]))]"
    "tool_starts (events (trace_of (run ex_rt ?cfg (Text ''hi'') ()))) = [JObj []]"
    "tool_ends (events (trace_of (run ex_rt ?cfg (Text ''hi'') ()))) = [JObj [(''ok'', JBool True)]]"
    "history_of (run ex_rt ?cfg (Text ''hi'') ())
      = [plain_message User (JStr ''hi''), assistant_message two_calls_response,
         tool_message ex_rt ok_tool lookup_call (JObj [(''ok'', JBool True)])]"
    by code_simp+
  from unknown_tool_call_is_skipped [OF h, of ex_rt ?cfg JNull ex_state "[]" "[Some lookup_call]"]
    h k n d r
  show ?thesis by simp
qed



end
